theory Spec2Isabelle
  imports Main "HOL-Library.Word"
begin

unbundle bit_operations_syntax

section \<open>Package scsi: errors, kernel interface and event trace\<close>

text \<open>
  The package talks to the kernel through \<open>os.MkdirAll\<close>, \<open>os.RemoveAll\<close>,
  \<open>unix.Mount\<close>, \<open>ioutil.ReadDir\<close>, \<open>os.OpenFile\<close>, \<open>File.Write\<close>,
  \<open>File.Close\<close>, \<open>ioutil.WriteFile\<close>, \<open>time.Sleep\<close>, \<open>time.Now\<close> and the
  caller's \<open>context.Context\<close>. Every such call is appended to a trace of events; the
  answer of the kernel to a call is a function of the whole trace up to and including the
  call, which covers every deterministic behaviour of the kernel along one execution.
  The clock is read without an event: \<open>timeNow\<close> gives the time at a trace, and
  \<open>durationString\<close> stands for \<open>time.Duration.String\<close>.
  Tracing spans (\<open>trace.StartSpan\<close>, \<open>oc.SetSpanStatus\<close>) and logging (\<open>log.G\<close>, with
  the clock readings that only the log lines use) are not part of the model.
  \<open>os.IsNotExist\<close>, \<open>fmt.Sprintf\<close> with \<open>%d\<close>, \<open>filepath.Join\<close> and
  \<open>filepath.Clean\<close> are those of the Go standard library.
\<close>

subsection \<open>Errors\<close>

datatype error =
    Errno nat                       \<comment> \<open>\<open>syscall.Errno\<close>\<close>
  | ErrNotExist                     \<comment> \<open>\<open>os.ErrNotExist\<close>\<close>
  | PathError string string error   \<comment> \<open>\<open>*os.PathError{Op, Path, Err}\<close>\<close>
  | Errorf string                   \<comment> \<open>\<open>errors.Errorf\<close> with the formatted message\<close>
  | Canceled                        \<comment> \<open>\<open>context.Canceled\<close>\<close>
  | DeadlineExceeded                \<comment> \<open>\<open>context.DeadlineExceeded\<close>\<close>

definition ENOENT :: nat where
  "ENOENT = 2"

definition EACCES :: nat where
  "EACCES = 13"

definition EIO :: nat where
  "EIO = 5"

fun underlyingError :: "error \<Rightarrow> error" where
  "underlyingError (PathError opn path err) = err"
| "underlyingError err = err"

definition os_IsNotExist :: "error \<Rightarrow> bool" where
  "os_IsNotExist err =
     (let e = underlyingError err in e = ErrNotExist \<or> e = Errno ENOENT)"

subsection \<open>Constants\<close>

definition MS_RDONLY :: "64 word" where
  "MS_RDONLY = 1"

definition O_WRONLY :: nat where
  "O_WRONLY = 1"

definition Millisecond :: int where
  "Millisecond = 1000000"

definition perm_0700 :: nat where
  "perm_0700 = 7 * 64"

definition perm_0644 :: nat where
  "perm_0644 = 6 * 64 + 4 * 8 + 4"

subsection \<open>Events and the kernel\<close>

datatype event =
    EvMkdirAll string nat                          \<comment> \<open>path, permissions\<close>
  | EvRemoveAll string                             \<comment> \<open>path\<close>
  | EvMount string string string "64 word" string  \<comment> \<open>source, target, fstype, flags, data\<close>
  | EvReadDir string                               \<comment> \<open>path\<close>
  | EvCtxDone                                      \<comment> \<open>non-blocking receive on \<open>ctx.Done()\<close>\<close>
  | EvSleep int                                    \<comment> \<open>duration in nanoseconds\<close>
  | EvOpenFile string nat nat                      \<comment> \<open>path, flag, permissions\<close>
  | EvWrite nat string                             \<comment> \<open>file, bytes\<close>
  | EvClose nat                                    \<comment> \<open>file\<close>
  | EvWriteFile string string nat                  \<comment> \<open>path, bytes, permissions\<close>

record world =
  osMkdirAll :: "event list \<Rightarrow> error option"
  osRemoveAll :: "event list \<Rightarrow> error option"
  unixMount :: "event list \<Rightarrow> error option"
  ioutilReadDir :: "event list \<Rightarrow> error + string list"
  osOpenFile :: "event list \<Rightarrow> error + nat"
  fileWrite :: "event list \<Rightarrow> error option"
  ioutilWriteFile :: "event list \<Rightarrow> error option"
  timeNow :: "event list \<Rightarrow> int"
  durationString :: "int \<Rightarrow> string"

text \<open>
  A context is its \<open>Err\<close> method as a function of the trace: \<open>None\<close> while \<open>Done\<close> is
  open, the cancellation error once it is closed. The \<open>select\<close> with a \<open>default\<close> branch
  on \<open>ctx.Done()\<close> is the event \<open>EvCtxDone\<close>; it finds the channel closed exactly when
  \<open>Err\<close> is not nil.
\<close>

type_synonym Context = "event list \<Rightarrow> error option"

definition MkdirAll :: "world \<Rightarrow> string \<Rightarrow> nat \<Rightarrow> event list \<Rightarrow> error option \<times> event list" where
  "MkdirAll w path perm h = (let h' = h @ [EvMkdirAll path perm] in (osMkdirAll w h', h'))"

definition RemoveAll :: "world \<Rightarrow> string \<Rightarrow> event list \<Rightarrow> error option \<times> event list" where
  "RemoveAll w path h = (let h' = h @ [EvRemoveAll path] in (osRemoveAll w h', h'))"

definition Mount_syscall ::
  "world \<Rightarrow> string \<Rightarrow> string \<Rightarrow> string \<Rightarrow> 64 word \<Rightarrow> string \<Rightarrow> event list
    \<Rightarrow> error option \<times> event list" where
  "Mount_syscall w source target fstype flags data h =
     (let h' = h @ [EvMount source target fstype flags data] in (unixMount w h', h'))"

text \<open>\<open>ioutil.ReadDir\<close> returns a nil slice together with every error.\<close>

definition ReadDir ::
  "world \<Rightarrow> string \<Rightarrow> event list \<Rightarrow> (string list \<times> error option) \<times> event list" where
  "ReadDir w dirname h =
     (let h' = h @ [EvReadDir dirname]
      in case ioutilReadDir w h' of
           Inl err \<Rightarrow> (([], Some err), h')
         | Inr list \<Rightarrow> ((list, None), h'))"

definition OpenFile ::
  "world \<Rightarrow> string \<Rightarrow> nat \<Rightarrow> nat \<Rightarrow> event list \<Rightarrow> (error + nat) \<times> event list" where
  "OpenFile w name flag perm h = (let h' = h @ [EvOpenFile name flag perm] in (osOpenFile w h', h'))"

definition Write :: "world \<Rightarrow> nat \<Rightarrow> string \<Rightarrow> event list \<Rightarrow> error option \<times> event list" where
  "Write w f b h = (let h' = h @ [EvWrite f b] in (fileWrite w h', h'))"

definition Close :: "nat \<Rightarrow> event list \<Rightarrow> event list" where
  "Close f h = h @ [EvClose f]"

definition WriteFile ::
  "world \<Rightarrow> string \<Rightarrow> string \<Rightarrow> nat \<Rightarrow> event list \<Rightarrow> error option \<times> event list" where
  "WriteFile w filename data perm h =
     (let h' = h @ [EvWriteFile filename data perm] in (ioutilWriteFile w h', h'))"

definition Sleep :: "int \<Rightarrow> event list \<Rightarrow> event list" where
  "Sleep d h = h @ [EvSleep d]"

definition ctxDone :: "Context \<Rightarrow> event list \<Rightarrow> bool \<times> event list" where
  "ctxDone ctx h = (let h' = h @ [EvCtxDone] in (ctx h' \<noteq> None, h'))"

definition ctxErr :: "Context \<Rightarrow> event list \<Rightarrow> error option" where
  "ctxErr ctx h = ctx h"

subsection \<open>\<open>fmt\<close> and \<open>path/filepath\<close>\<close>

definition digit :: "nat \<Rightarrow> char" where
  "digit n = ''0123456789'' ! n"

function fmt_d :: "nat \<Rightarrow> string" where
  "fmt_d n = (if n < 10 then [digit n] else fmt_d (n div 10) @ [digit (n mod 10)])"
  by pat_completeness auto
termination
  by (relation "measure id") auto

declare fmt_d.simps [simp del]

definition IsPathSeparator :: "char \<Rightarrow> bool" where
  "IsPathSeparator c = (c = CHR ''/'')"

text \<open>
  The backtracking of \<open>filepath.Clean\<close> at a \<open>..\<close> element, on the write index \<open>w\<close>
  after its first decrement.
\<close>

function backtrack :: "string \<Rightarrow> nat \<Rightarrow> nat \<Rightarrow> nat" where
  "backtrack buf dotdot w =
     (if w > dotdot \<and> \<not> IsPathSeparator (buf ! w) then backtrack buf dotdot (w - 1) else w)"
  by pat_completeness auto
termination
  by (relation "measure (\<lambda>(buf, dotdot, w). w)") auto

declare backtrack.simps [simp del]

text \<open>
  The main loop of \<open>filepath.Clean\<close>: the unread rest of the path, the output buffer and
  the index \<open>dotdot\<close> below which \<open>..\<close> must not backtrack.
\<close>

function Clean_loop :: "bool \<Rightarrow> string \<Rightarrow> string \<Rightarrow> nat \<Rightarrow> string" where
  "Clean_loop rooted [] out dotdot = out"
| "Clean_loop rooted (c # cs) out dotdot =
     (if IsPathSeparator c then Clean_loop rooted cs out dotdot
      else if c = CHR ''.'' \<and> (cs = [] \<or> IsPathSeparator (hd cs)) then
        Clean_loop rooted cs out dotdot
      else if c = CHR ''.'' \<and> hd cs = CHR ''.'' \<and> (tl cs = [] \<or> IsPathSeparator (hd (tl cs))) then
        (if length out > dotdot then
           Clean_loop rooted (tl cs) (take (backtrack out dotdot (length out - 1)) out) dotdot
         else if \<not> rooted then
           (let out' = (if length out > 0 then out @ ''/'' else out) @ ''..''
            in Clean_loop rooted (tl cs) out' (length out'))
         else Clean_loop rooted (tl cs) out dotdot)
      else
        (let out' = (if rooted \<and> length out \<noteq> 1 \<or> \<not> rooted \<and> length out \<noteq> 0
                     then out @ ''/'' else out)
         in Clean_loop rooted (dropWhile (\<lambda>x. \<not> IsPathSeparator x) (c # cs))
              (out' @ takeWhile (\<lambda>x. \<not> IsPathSeparator x) (c # cs)) dotdot))"
  by pat_completeness auto
termination
  by (relation "measure (\<lambda>(rooted, path, out, dotdot). length path)")
     (auto simp: le_imp_less_Suc length_dropWhile_le)

declare Clean_loop.simps [simp del]

definition Clean :: "string \<Rightarrow> string" where
  "Clean path =
     (if path = [] then ''.''
      else let out = (if IsPathSeparator (hd path) then Clean_loop True (tl path) ''/'' 1
                      else Clean_loop False path [] 0)
           in if length out = 0 then ''.'' else out)"

fun strings_Join :: "string list \<Rightarrow> string \<Rightarrow> string" where
  "strings_Join [] sep = []"
| "strings_Join [a] sep = a"
| "strings_Join (a # b # elems) sep = a @ sep @ strings_Join (b # elems) sep"

fun filepath_Join :: "string list \<Rightarrow> string" where
  "filepath_Join [] = []"
| "filepath_Join (e # elem) =
     (if e \<noteq> [] then Clean (strings_Join (e # elem) ''/'') else filepath_Join elem)"

section \<open>The package\<close>

subsection \<open>\<open>ControllerLunToName\<close>\<close>

definition scsiID_of :: "8 word \<Rightarrow> 8 word \<Rightarrow> string" where
  "scsiID_of controller lun = ''0:0:'' @ fmt_d (unat controller) @ '':'' @ fmt_d (unat lun)"

definition quote :: string where
  "quote = [CHR 0x22]"

text \<open>The statements of \<open>ControllerLunToName\<close> after its \<open>for\<close> loop.\<close>

definition ControllerLunToName_found :: "string \<Rightarrow> string list \<Rightarrow> string \<times> error option" where
  "ControllerLunToName_found scsiID deviceNames =
     (if length deviceNames = 0 then
        ('''', Some (Errorf
           (''no matching device names found for SCSI ID '' @ quote @ scsiID @ quote)))
      else if length deviceNames > 1 then
        ('''', Some (Errorf
           (''more than one block device could match SCSI ID '' @ quote @ scsiID @ quote)))
      else (filepath_Join [''/dev'', deviceNames ! 0], None))"

text \<open>
  The \<open>for\<close> loop of \<open>ControllerLunToName\<close> together with the statements after it.
  The loop has no bound: \<open>None\<close> is the run that never returns.
\<close>

partial_function (option) ControllerLunToName_loop ::
  "world \<Rightarrow> Context \<Rightarrow> string \<Rightarrow> string \<Rightarrow> event list
    \<Rightarrow> ((string \<times> error option) \<times> event list) option" where
  "ControllerLunToName_loop w ctx scsiID blockPath h =
     (case ReadDir w blockPath h of
        ((deviceNames, err), h1) \<Rightarrow>
          if (case err of None \<Rightarrow> False | Some e \<Rightarrow> \<not> os_IsNotExist e) then
            Some (('''', err), h1)
          else if length deviceNames = 0 then
            (case ctxDone ctx h1 of
               (done, h2) \<Rightarrow>
                 if done then Some (('''', ctxErr ctx h2), h2)
                 else ControllerLunToName_loop w ctx scsiID blockPath
                        (Sleep (Millisecond * 10) h2))
          else Some (ControllerLunToName_found scsiID deviceNames, h1))"

declare ControllerLunToName_loop.simps [code]

definition ControllerLunToName ::
  "world \<Rightarrow> Context \<Rightarrow> 8 word \<Rightarrow> 8 word \<Rightarrow> event list
    \<Rightarrow> ((string \<times> error option) \<times> event list) option" where
  "ControllerLunToName w ctx controller lun h =
     (let scsiID = scsiID_of controller lun;
          blockPath = filepath_Join [''/sys/bus/scsi/devices'', scsiID, ''block'']
      in ControllerLunToName_loop w ctx scsiID blockPath h)"

subsection \<open>\<open>Mount\<close>\<close>

text \<open>The \<open>for\<close> loop of \<open>Mount\<close> with the \<open>return nil\<close> after it.\<close>

partial_function (option) Mount_loop ::
  "world \<Rightarrow> Context \<Rightarrow> string \<Rightarrow> string \<Rightarrow> 64 word \<Rightarrow> string \<Rightarrow> event list
    \<Rightarrow> (error option \<times> event list) option" where
  "Mount_loop w ctx source target flags data h =
     (case Mount_syscall w source target ''ext4'' flags data h of
        (err, h1) \<Rightarrow>
          if err \<noteq> None then
            if err = Some (Errno ENOENT) then
              (case ctxDone ctx h1 of
                 (done, h2) \<Rightarrow>
                   if done then Some (ctxErr ctx h2, h2)
                   else Mount_loop w ctx source target flags data (Sleep (10 * Millisecond) h2))
            else Some (err, h1)
          else Some (None, h1))"

declare Mount_loop.simps [code]

text \<open>
  The body of \<open>Mount\<close> from the call of \<open>controllerLunToName\<close> on, which runs with the
  removal of \<open>target\<close> deferred.
\<close>

definition Mount_body ::
  "world \<Rightarrow> Context \<Rightarrow> 8 word \<Rightarrow> 8 word \<Rightarrow> string \<Rightarrow> bool \<Rightarrow> event list
    \<Rightarrow> (error option \<times> event list) option" where
  "Mount_body w ctx controller lun target readonly h =
     (case ControllerLunToName w ctx controller lun h of
        None \<Rightarrow> None
      | Some ((source, err), h1) \<Rightarrow>
          if err \<noteq> None then Some (err, h1)
          else
            (let flags = (if readonly then 0 OR MS_RDONLY else 0);
                 data = (if readonly then ''noload'' else '''')
             in Mount_loop w ctx source target flags data h1))"

definition Mount ::
  "world \<Rightarrow> Context \<Rightarrow> 8 word \<Rightarrow> 8 word \<Rightarrow> string \<Rightarrow> bool \<Rightarrow> event list
    \<Rightarrow> (error option \<times> event list) option" where
  "Mount w ctx controller lun target readonly h =
     (case MkdirAll w target perm_0700 h of
        (Some err, h1) \<Rightarrow> Some (Some err, h1)
      | (None, h1) \<Rightarrow>
          (case Mount_body w ctx controller lun target readonly h1 of
             None \<Rightarrow> None
           | Some (err, h2) \<Rightarrow>
               if err \<noteq> None then Some (err, snd (RemoveAll w target h2))
               else Some (err, h2)))"

subsection \<open>\<open>UnplugDevice\<close>\<close>

definition UnplugDevice ::
  "world \<Rightarrow> Context \<Rightarrow> 8 word \<Rightarrow> 8 word \<Rightarrow> event list \<Rightarrow> error option \<times> event list" where
  "UnplugDevice w ctx controller lun h =
     (let scsiID = scsiID_of controller lun
      in case OpenFile w (filepath_Join [''/sys/bus/scsi/devices'', scsiID, ''delete''])
                O_WRONLY perm_0644 h of
           (Inl err, h1) \<Rightarrow> if os_IsNotExist err then (None, h1) else (Some err, h1)
         | (Inr f, h1) \<Rightarrow>
             (let t = timeNow w h1
              in case Write w f (''1'' @ [CHR 0x0A]) h1 of
                   (Some err, h2) \<Rightarrow> (Some err, Close f h2)
                 | (None, h2) \<Rightarrow>
                     (let scsiMsg = ''Time for scsi unplug: '' @
                                    durationString w (timeNow w h2 - t)
                      in case WriteFile w ''/dev/kmsg'' scsiMsg perm_0644 h2 of
                           (Some err, h3) \<Rightarrow> (Some err, Close f h3)
                         | (None, h3) \<Rightarrow> (None, Close f h3))))"

section \<open>Vocabulary of the statements\<close>

text \<open>
  A directory entry name: not empty, not \<open>.\<close> or \<open>..\<close>, and without a separator.
\<close>

definition entry_name :: "string \<Rightarrow> bool" where
  "entry_name E = (E \<noteq> [] \<and> E \<noteq> ''.'' \<and> E \<noteq> ''..'' \<and> CHR ''/'' \<notin> set E)"

text \<open>
  The two paths of the statements, written out. Lemmas \<open>blockPath_eq\<close> and
  \<open>deletePath_eq\<close> show that they are what \<open>filepath.Join\<close> computes in the code.
\<close>

definition topology_listing :: "8 word \<Rightarrow> 8 word \<Rightarrow> string" where
  "topology_listing controller lun =
     ''/sys/bus/scsi/devices/0:0:'' @ fmt_d (unat controller) @ '':'' @ fmt_d (unat lun) @ ''/block''"

definition removal_control :: "8 word \<Rightarrow> 8 word \<Rightarrow> string" where
  "removal_control controller lun =
     ''/sys/bus/scsi/devices/0:0:'' @ fmt_d (unat controller) @ '':'' @ fmt_d (unat lun) @ ''/delete''"

abbreviation listing_read :: "8 word \<Rightarrow> 8 word \<Rightarrow> event" where
  "listing_read controller lun \<equiv> EvReadDir (topology_listing controller lun)"

abbreviation open_delete :: "8 word \<Rightarrow> 8 word \<Rightarrow> event" where
  "open_delete controller lun \<equiv> EvOpenFile (removal_control controller lun) O_WRONLY perm_0644"

abbreviation mount_call :: "string \<Rightarrow> string \<Rightarrow> bool \<Rightarrow> event" where
  "mount_call source target readonly \<equiv>
     EvMount source target ''ext4'' (if readonly then MS_RDONLY else 0)
       (if readonly then ''noload'' else '''')"

text \<open>
  One round of a retry loop is the call, the check of the context and the sleep of 10
  milliseconds; \<open>retries call n\<close> is the trace of \<open>n\<close> rounds.
\<close>

definition retry_round :: "event \<Rightarrow> event list" where
  "retry_round call = [call, EvCtxDone, EvSleep 10000000]"

primrec retries :: "event \<Rightarrow> nat \<Rightarrow> event list" where
  "retries call 0 = []"
| "retries call (Suc n) = retries call n @ retry_round call"

text \<open>
  A read of the listing that finds the path absent or the listing empty, and the first
  \<open>n\<close> rounds of a call all being retries: the read (or the mount call) asks for a retry
  and the context is not done at the check.
\<close>

definition absent_or_empty :: "world \<Rightarrow> string \<Rightarrow> event list \<Rightarrow> bool" where
  "absent_or_empty w p h =
     (case ioutilReadDir w (h @ [EvReadDir p]) of
        Inl e \<Rightarrow> os_IsNotExist e
      | Inr names \<Rightarrow> names = [])"

definition listing_pending :: "world \<Rightarrow> Context \<Rightarrow> string \<Rightarrow> event list \<Rightarrow> nat \<Rightarrow> bool" where
  "listing_pending w ctx p h n =
     list_all (\<lambda>k. absent_or_empty w p (h @ retries (EvReadDir p) k) \<and>
                   ctx (h @ retries (EvReadDir p) k @ [EvReadDir p, EvCtxDone]) = None) [0..<n]"

definition mount_pending :: "world \<Rightarrow> Context \<Rightarrow> event \<Rightarrow> event list \<Rightarrow> nat \<Rightarrow> bool" where
  "mount_pending w ctx call h n =
     list_all (\<lambda>k. unixMount w (h @ retries call k @ [call]) = Some (Errno ENOENT) \<and>
                   ctx (h @ retries call k @ [call, EvCtxDone]) = None) [0..<n]"

text \<open>
  The open of the removal-control file fails because the file does not exist.
\<close>

definition control_absent :: "world \<Rightarrow> 8 word \<Rightarrow> 8 word \<Rightarrow> event list \<Rightarrow> bool" where
  "control_absent w controller lun h =
     (case osOpenFile w (h @ [open_delete controller lun]) of
        Inl e \<Rightarrow> os_IsNotExist e
      | Inr f \<Rightarrow> False)"

text \<open>
  Kinds of events, and the flags and data of a mount call.
\<close>

fun is_ReadDir :: "event \<Rightarrow> bool" where
  "is_ReadDir (EvReadDir p) = True"
| "is_ReadDir ev = False"

fun is_Mount :: "event \<Rightarrow> bool" where
  "is_Mount (EvMount s t f fl d) = True"
| "is_Mount ev = False"

fun is_RemoveAll :: "event \<Rightarrow> bool" where
  "is_RemoveAll (EvRemoveAll p) = True"
| "is_RemoveAll ev = False"

fun mount_flags_data :: "event \<Rightarrow> (64 word \<times> string) option" where
  "mount_flags_data (EvMount s t f fl d) = Some (fl, d)"
| "mount_flags_data ev = None"

text \<open>\<open>n\<close> calls of \<open>UnplugDevice\<close> in succession, with the results in order.\<close>

fun UnplugDevice_times ::
  "world \<Rightarrow> Context \<Rightarrow> 8 word \<Rightarrow> 8 word \<Rightarrow> nat \<Rightarrow> event list
    \<Rightarrow> error option list \<times> event list" where
  "UnplugDevice_times w ctx controller lun 0 h = ([], h)"
| "UnplugDevice_times w ctx controller lun (Suc n) h =
     (case UnplugDevice w ctx controller lun h of
        (err, h1) \<Rightarrow>
          (case UnplugDevice_times w ctx controller lun n h1 of
             (errs, h2) \<Rightarrow> (err # errs, h2)))"

section \<open>Kernels and contexts of the closed instances\<close>

text \<open>
  The kernels below answer by the number of calls made so far; the context \<open>deadline d\<close>
  is done once the sleeps of the trace add up to \<open>d\<close> nanoseconds.
\<close>

definition calls :: "(event \<Rightarrow> bool) \<Rightarrow> event list \<Rightarrow> nat" where
  "calls P h = length (filter P h)"

fun sleep_of :: "event \<Rightarrow> int" where
  "sleep_of (EvSleep d) = d"
| "sleep_of ev = 0"

definition background :: Context where
  "background = (\<lambda>h. None)"

definition canceled :: Context where
  "canceled = (\<lambda>h. Some Canceled)"

definition deadline :: "int \<Rightarrow> Context" where
  "deadline d h = (if d \<le> sum_list (map sleep_of h) then Some DeadlineExceeded else None)"

text \<open>
  \<open>kernel_ready\<close>: every call succeeds and the listing holds the one entry \<open>sda\<close>.
  The others differ from it in one answer: a listing that is absent, then empty, then
  populated, and a device node that appears at the third mount call (\<open>kernel_slow\<close>); a
  listing that never appears (\<open>kernel_absent\<close>); two entries (\<open>kernel_ambiguous\<close>); a
  listing that cannot be read (\<open>kernel_denied\<close>); a device node that never appears
  (\<open>kernel_no_node\<close>); a mount that fails with \<open>EIO\<close> (\<open>kernel_mount_fatal\<close>); a
  directory that cannot be created (\<open>kernel_readonly_root\<close>); a device already removed
  (\<open>kernel_removed\<close>); a kernel log that cannot be written (\<open>kernel_kmsg_denied\<close>); a
  removal-control file that cannot be written (\<open>kernel_write_fails\<close>).
\<close>

definition kernel_ready :: world where
  "kernel_ready =
     \<lparr> osMkdirAll = (\<lambda>h. None), osRemoveAll = (\<lambda>h. None), unixMount = (\<lambda>h. None),
       ioutilReadDir = (\<lambda>h. Inr [''sda'']), osOpenFile = (\<lambda>h. Inr 3),
       fileWrite = (\<lambda>h. None), ioutilWriteFile = (\<lambda>h. None),
       timeNow = (\<lambda>h. int (length h)), durationString = (\<lambda>d. fmt_d (nat d) @ ''ns'') \<rparr>"

definition kernel_slow :: world where
  "kernel_slow = kernel_ready
     \<lparr> ioutilReadDir :=
         (\<lambda>h. if calls is_ReadDir h < 2
              then Inl (PathError ''open'' (topology_listing 0 1) (Errno ENOENT))
              else if calls is_ReadDir h < 3 then Inr [] else Inr [''sdb'']),
       unixMount := (\<lambda>h. if calls is_Mount h < 3 then Some (Errno ENOENT) else None) \<rparr>"

definition kernel_absent :: world where
  "kernel_absent = kernel_ready
     \<lparr> ioutilReadDir := (\<lambda>h. Inl (PathError ''open'' (topology_listing 0 1) (Errno ENOENT))) \<rparr>"

definition kernel_ambiguous :: world where
  "kernel_ambiguous = kernel_ready
     \<lparr> ioutilReadDir := (\<lambda>h. if calls is_ReadDir h < 2 then Inr [] else Inr [''sdb'', ''sdc'']) \<rparr>"

definition kernel_denied :: world where
  "kernel_denied = kernel_ready
     \<lparr> ioutilReadDir := (\<lambda>h. if calls is_ReadDir h < 2 then Inl ErrNotExist
                            else Inl (PathError ''open'' (topology_listing 0 1) (Errno EACCES))) \<rparr>"

definition kernel_no_node :: world where
  "kernel_no_node = kernel_ready \<lparr> unixMount := (\<lambda>h. Some (Errno ENOENT)) \<rparr>"

definition kernel_mount_fatal :: world where
  "kernel_mount_fatal = kernel_ready
     \<lparr> unixMount := (\<lambda>h. if calls is_Mount h < 2 then Some (Errno ENOENT) else Some (Errno EIO)) \<rparr>"

definition kernel_readonly_root :: world where
  "kernel_readonly_root = kernel_ready
     \<lparr> osMkdirAll := (\<lambda>h. Some (PathError ''mkdir'' ''/run/m'' (Errno 30))) \<rparr>"

definition kernel_removed :: world where
  "kernel_removed = kernel_ready
     \<lparr> osOpenFile := (\<lambda>h. Inl (PathError ''open'' (removal_control 0 1) (Errno ENOENT))) \<rparr>"

definition kernel_kmsg_denied :: world where
  "kernel_kmsg_denied = kernel_ready
     \<lparr> ioutilWriteFile := (\<lambda>h. Some (PathError ''open'' ''/dev/kmsg'' (Errno EACCES))) \<rparr>"

definition kernel_write_fails :: world where
  "kernel_write_fails = kernel_ready
     \<lparr> fileWrite := (\<lambda>h. Some (PathError ''write'' (removal_control 0 1) (Errno EIO))) \<rparr>"

section \<open>Paths\<close>

lemma digit_in: "n < 10 \<Longrightarrow> digit n \<in> set ''0123456789''"
  unfolding digit_def by (rule nth_mem) simp

lemma fmt_d_chars: "set (fmt_d n) \<subseteq> set ''0123456789''"
proof (induction n rule: fmt_d.induct)
  case (1 n)
  show ?case
  proof (cases "n < 10")
    case True
    then show ?thesis using digit_in [of n] by (subst fmt_d.simps) simp
  next
    case False
    have "n mod 10 < 10" by simp
    then have "digit (n mod 10) \<in> set ''0123456789''" by (rule digit_in)
    with False 1 show ?thesis by (subst fmt_d.simps) simp
  qed
qed

lemma fmt_d_small: "fmt_d 0 = ''0''" "fmt_d (Suc 0) = ''1''"
  by (simp_all add: fmt_d.simps digit_def)

lemma scsiID_entry_name: "entry_name (scsiID_of controller lun)"
proof -
  have "CHR ''/'' \<notin> set (fmt_d n)" for n
    using fmt_d_chars [of n] by auto
  then show ?thesis
    by (simp add: entry_name_def scsiID_of_def)
qed

lemma takeWhile_entry:
  assumes "CHR ''/'' \<notin> set E" "rest = [] \<or> hd rest = CHR ''/''"
  shows "takeWhile (\<lambda>x. \<not> IsPathSeparator x) (E @ rest) = E"
    and "dropWhile (\<lambda>x. \<not> IsPathSeparator x) (E @ rest) = rest"
proof -
  have a: "\<forall>x \<in> set E. \<not> IsPathSeparator x"
    using assms(1) by (auto simp: IsPathSeparator_def)
  have b: "takeWhile (\<lambda>x. \<not> IsPathSeparator x) rest = []"
    using assms(2) by (cases rest) (auto simp: IsPathSeparator_def)
  have c: "dropWhile (\<lambda>x. \<not> IsPathSeparator x) rest = rest"
    using assms(2) by (cases rest) (auto simp: IsPathSeparator_def)
  show "takeWhile (\<lambda>x. \<not> IsPathSeparator x) (E @ rest) = E"
    using a b by simp
  show "dropWhile (\<lambda>x. \<not> IsPathSeparator x) (E @ rest) = rest"
    using a c by simp
qed

lemma Clean_loop_entry:
  assumes E: "entry_name E" and rest: "rest = [] \<or> hd rest = CHR ''/''"
  shows "Clean_loop True (E @ rest) out dotdot =
         Clean_loop True rest ((if length out \<noteq> 1 then out @ ''/'' else out) @ E) dotdot"
proof -
  from E obtain c cs where Ecs: "E = c # cs"
    by (cases E) (auto simp: entry_name_def)
  have nosep: "CHR ''/'' \<notin> set E" using E by (simp add: entry_name_def)
  have c1: "\<not> IsPathSeparator c"
    using nosep Ecs by (auto simp: IsPathSeparator_def)
  have c2: "\<not> (c = CHR ''.'' \<and> (cs @ rest = [] \<or> IsPathSeparator (hd (cs @ rest))))"
    using E Ecs by (cases cs) (auto simp: entry_name_def IsPathSeparator_def)
  have c3: "\<not> (c = CHR ''.'' \<and> hd (cs @ rest) = CHR ''.'' \<and>
                (tl (cs @ rest) = [] \<or> IsPathSeparator (hd (tl (cs @ rest)))))"
  proof (cases cs)
    case Nil
    then show ?thesis using E Ecs by (auto simp: entry_name_def)
  next
    case (Cons d ds)
    then show ?thesis using E Ecs
      by (cases ds) (auto simp: entry_name_def IsPathSeparator_def)
  qed
  have "Clean_loop True (c # (cs @ rest)) out dotdot =
        Clean_loop True (dropWhile (\<lambda>x. \<not> IsPathSeparator x) (c # (cs @ rest)))
          ((if length out \<noteq> 1 then out @ ''/'' else out) @
             takeWhile (\<lambda>x. \<not> IsPathSeparator x) (c # (cs @ rest))) dotdot"
    by (subst Clean_loop.simps(2)) (simp only: c1 c2 c3 if_False Let_def simp_thms if_True)
  then show ?thesis
    using takeWhile_entry [OF nosep rest] by (simp add: Ecs)
qed

lemma Clean_loop_sep: "Clean_loop rooted (CHR ''/'' # rest) out dotdot = Clean_loop rooted rest out dotdot"
  by (subst Clean_loop.simps) (simp add: IsPathSeparator_def)

lemma Clean_loop_entry_sep:
  "entry_name E \<Longrightarrow> Clean_loop True (E @ CHR ''/'' # rest) out dotdot =
     Clean_loop True rest ((if length out \<noteq> 1 then out @ ''/'' else out) @ E) dotdot"
  by (simp add: Clean_loop_entry Clean_loop_sep)

lemma Clean_loop_entry_end:
  "entry_name E \<Longrightarrow> Clean_loop True E out dotdot = (if length out \<noteq> 1 then out @ ''/'' else out) @ E"
  using Clean_loop_entry [of E "[]" out dotdot] by (simp add: Clean_loop.simps)

lemma Join_dev: 
  assumes "entry_name E" shows "filepath_Join [''/dev'', E] = ''/dev/'' @ E"
proof -
  have "Clean_loop True (''dev'' @ CHR ''/'' # E) ''/'' 1 = Clean_loop True E ''/dev'' 1"
    by (subst Clean_loop_entry_sep) (simp_all add: entry_name_def)
  also have "\<dots> = ''/dev/'' @ E"
    using assms by (simp add: Clean_loop_entry_end)
  finally have "Clean (''/dev/'' @ E) = ''/dev/'' @ E"
    by (simp add: Clean_def IsPathSeparator_def)
  then show ?thesis by simp
qed

lemma Join_devices:
  assumes "entry_name D" "entry_name E" 
  shows "filepath_Join [''/sys/bus/scsi/devices'', D, E] = ''/sys/bus/scsi/devices/'' @ D @ ''/'' @ E"
proof -
  have "Clean_loop True (''sys'' @ CHR ''/'' # (''bus/scsi/devices/'' @ D @ ''/'' @ E)) ''/'' 1
       = Clean_loop True (''bus'' @ CHR ''/'' # (''scsi/devices/'' @ D @ ''/'' @ E)) ''/sys'' 1"
    by (subst Clean_loop_entry_sep) (simp_all add: entry_name_def)
  also have "\<dots> = Clean_loop True (''scsi'' @ CHR ''/'' # (''devices/'' @ D @ ''/'' @ E)) ''/sys/bus'' 1"
    by (subst Clean_loop_entry_sep) (simp_all add: entry_name_def)
  also have "\<dots> = Clean_loop True (''devices'' @ CHR ''/'' # (D @ ''/'' @ E)) ''/sys/bus/scsi'' 1"
    by (subst Clean_loop_entry_sep) (simp_all add: entry_name_def)
  also have "\<dots> = Clean_loop True (D @ CHR ''/'' # E) ''/sys/bus/scsi/devices'' 1"
    by (subst Clean_loop_entry_sep) (simp_all add: entry_name_def)
  also have "\<dots> = Clean_loop True E (''/sys/bus/scsi/devices/'' @ D) 1"
    using assms(1) by (subst Clean_loop_entry_sep) simp_all
  also have "\<dots> = ''/sys/bus/scsi/devices/'' @ D @ ''/'' @ E"
    using assms(2) by (simp add: Clean_loop_entry_end)
  finally have "Clean (''/sys/bus/scsi/devices/'' @ D @ ''/'' @ E) = ''/sys/bus/scsi/devices/'' @ D @ ''/'' @ E"
    by (simp add: Clean_def IsPathSeparator_def)
  then show ?thesis by simp
qed

lemma blockPath_eq:
  "filepath_Join [''/sys/bus/scsi/devices'', scsiID_of controller lun, ''block''] = topology_listing controller lun"
  using Join_devices [OF scsiID_entry_name, of "''block''" controller lun]
  by (simp add: entry_name_def topology_listing_def scsiID_of_def)

lemma deletePath_eq:
  "filepath_Join [''/sys/bus/scsi/devices'', scsiID_of controller lun, ''delete''] = removal_control controller lun"
  using Join_devices [OF scsiID_entry_name, of "''delete''" controller lun]
  by (simp add: entry_name_def removal_control_def scsiID_of_def)

lemma topology_listing_0_0: "topology_listing 0 0 = ''/sys/bus/scsi/devices/0:0:0:0/block''"
  by code_simp

lemma listing_0_1: "topology_listing 0 1 = ''/sys/bus/scsi/devices/0:0:0:1/block''"
  by code_simp

lemma removal_0_1: "removal_control 0 1 = ''/sys/bus/scsi/devices/0:0:0:1/delete''"
  by (simp add: removal_control_def fmt_d_small)

section \<open>The polling loop of \<open>ControllerLunToName\<close>\<close>

lemma loop_pending:
  assumes "absent_or_empty w p h" "ctx (h @ [EvReadDir p, EvCtxDone]) = None"
  shows "ControllerLunToName_loop w ctx ident p h =
         ControllerLunToName_loop w ctx ident p (h @ retry_round (EvReadDir p))"
  using assms
  by (subst ControllerLunToName_loop.simps)
     (auto simp: absent_or_empty_def ReadDir_def ctxDone_def Sleep_def retry_round_def
        Millisecond_def split: sum.splits)

lemma loop_done:
  assumes "absent_or_empty w p h" "ctx (h @ [EvReadDir p, EvCtxDone]) = Some e"
  shows "ControllerLunToName_loop w ctx ident p h =
         Some (('''', Some e), h @ [EvReadDir p, EvCtxDone])"
  using assms
  by (subst ControllerLunToName_loop.simps)
     (auto simp: absent_or_empty_def ReadDir_def ctxDone_def ctxErr_def split: sum.splits)

lemma loop_error:
  assumes "ioutilReadDir w (h @ [EvReadDir p]) = Inl e" "\<not> os_IsNotExist e"
  shows "ControllerLunToName_loop w ctx ident p h = Some (('''', Some e), h @ [EvReadDir p])"
  using assms
  by (subst ControllerLunToName_loop.simps) (simp add: ReadDir_def)

lemma loop_found:
  assumes "ioutilReadDir w (h @ [EvReadDir p]) = Inr names" "names \<noteq> []"
  shows "ControllerLunToName_loop w ctx ident p h =
         Some (ControllerLunToName_found ident names, h @ [EvReadDir p])"
  using assms
  by (subst ControllerLunToName_loop.simps) (simp add: ReadDir_def)

lemma listing_pending_Suc:
  "listing_pending w ctx p h (Suc n) \<longleftrightarrow>
     listing_pending w ctx p h n \<and> absent_or_empty w p (h @ retries (EvReadDir p) n) \<and>
     ctx (h @ retries (EvReadDir p) n @ [EvReadDir p, EvCtxDone]) = None"
  by (simp add: listing_pending_def)

lemma loop_retries:
  "listing_pending w ctx p h n \<Longrightarrow>
   ControllerLunToName_loop w ctx ident p h =
   ControllerLunToName_loop w ctx ident p (h @ retries (EvReadDir p) n)"
proof (induction n)
  case 0
  show ?case by simp
next
  case (Suc n)
  then have pend: "listing_pending w ctx p h n"
    and abs: "absent_or_empty w p (h @ retries (EvReadDir p) n)"
    and ctx: "ctx ((h @ retries (EvReadDir p) n) @ [EvReadDir p, EvCtxDone]) = None"
    by (simp_all add: listing_pending_Suc)
  show ?case
    using Suc.IH [OF pend]
      loop_pending [of w p "h @ retries (EvReadDir p) n" ctx ident, OF abs ctx]
    by simp
qed

lemma loop_never_returns_aux:
  assumes pend: "\<And>n. listing_pending w ctx p h n"
    and ret: "ControllerLunToName_loop w0 ctx0 ident0 p0 h0 = Some y0"
  shows "w0 = w \<longrightarrow> ctx0 = ctx \<longrightarrow> p0 = p \<longrightarrow> (\<forall>m. h0 \<noteq> h @ retries (EvReadDir p) m)"
proof (rule ControllerLunToName_loop.raw_induct
    [where P = "\<lambda>w' ctx' ident' p' h' y.
       w' = w \<longrightarrow> ctx' = ctx \<longrightarrow> p' = p \<longrightarrow> (\<forall>m. h' \<noteq> h @ retries (EvReadDir p) m)",
     OF _ ret], goal_cases)
  case (1 loop w' ctx' ident' p' h' y)
  show ?case
  proof (intro impI allI notI)
    fix m
    assume eqs: "w' = w" "ctx' = ctx" "p' = p"
      and h': "h' = h @ retries (EvReadDir p) m"
    from pend [of "Suc m"]
    have abs: "absent_or_empty w p (h @ retries (EvReadDir p) m)"
      and ctx: "ctx (h @ retries (EvReadDir p) m @ [EvReadDir p, EvCtxDone]) = None"
      by (simp_all add: listing_pending_Suc)
    from 1(2) abs ctx
    have "loop w ctx ident' p (h @ retries (EvReadDir p) (Suc m)) = Some y"
      unfolding h' eqs
      by (auto simp: absent_or_empty_def ReadDir_def ctxDone_def Sleep_def retry_round_def
          Millisecond_def split: sum.splits if_splits)
    from 1(1) [OF this] have "h @ retries (EvReadDir p) (Suc m) \<noteq> h @ retries (EvReadDir p) (Suc m)"
      by blast
    then show False by simp
  qed
qed

lemma loop_never_returns:
  assumes "\<And>n. listing_pending w ctx p h n"
  shows "ControllerLunToName_loop w ctx ident p h = None"
proof (cases "ControllerLunToName_loop w ctx ident p h")
  case (Some y)
  from loop_never_returns_aux [OF assms Some] show ?thesis by (auto dest: spec [of _ 0])
qed simp

lemma resolve_trace_aux:
  assumes "ControllerLunToName_loop w ctx ident p h = Some y"
  shows "\<exists>t. snd y = h @ t \<and> list_all (\<lambda>ev. \<not> is_RemoveAll ev \<and> \<not> is_Mount ev) t"
proof (rule ControllerLunToName_loop.raw_induct
    [where P = "\<lambda>w ctx ident p h y.
       \<exists>t. snd y = h @ t \<and> list_all (\<lambda>ev. \<not> is_RemoveAll ev \<and> \<not> is_Mount ev) t",
     OF _ assms], goal_cases)
  case (1 loop w ctx ident p h y)
  let ?ok = "list_all (\<lambda>ev. \<not> is_RemoveAll ev \<and> \<not> is_Mount ev)"
  let ?rd = "EvReadDir p"
  from 1(2)
  have "snd y = h @ [?rd] \<or> snd y = h @ [?rd, EvCtxDone] \<or>
        loop w ctx ident p (h @ [?rd, EvCtxDone, EvSleep (Millisecond * 10)]) = Some y"
    by (auto simp: ReadDir_def ctxDone_def Sleep_def Let_def split: sum.splits if_splits)
  then consider
    (ret) "snd y = h @ [?rd]"
  | (expired) "snd y = h @ [?rd, EvCtxDone]"
  | (again) "loop w ctx ident p (h @ [?rd, EvCtxDone, EvSleep (Millisecond * 10)]) = Some y"
    by blast
  then show ?case
  proof cases
    case ret
    then show ?thesis by (intro exI [of _ "[?rd]"]) simp
  next
    case expired
    then show ?thesis by (intro exI [of _ "[?rd, EvCtxDone]"]) simp
  next
    case again
    from 1(1) [OF again] obtain t
      where "snd y = (h @ [?rd, EvCtxDone, EvSleep (Millisecond * 10)]) @ t" "?ok t"
      by blast
    then show ?thesis
      by (intro exI [of _ "[?rd, EvCtxDone, EvSleep (Millisecond * 10)] @ t"]) simp
  qed
qed

lemma ControllerLunToName_eq:
  "ControllerLunToName w ctx controller lun h =
   ControllerLunToName_loop w ctx (scsiID_of controller lun) (topology_listing controller lun) h"
  unfolding ControllerLunToName_def Let_def blockPath_eq ..

lemma ControllerLunToName_retries:
  assumes "listing_pending w ctx (topology_listing controller lun) h n"
  shows "ControllerLunToName w ctx controller lun h =
         ControllerLunToName w ctx controller lun (h @ retries (listing_read controller lun) n)"
  unfolding ControllerLunToName_eq by (rule loop_retries [OF assms])

lemma found_single:
  "entry_name E \<Longrightarrow> ControllerLunToName_found ident [E] = (''/dev/'' @ E, None)"
  unfolding ControllerLunToName_found_def by (simp add: Join_dev del: filepath_Join.simps)

section \<open>The retry loop of \<open>Mount\<close>\<close>

lemma mount_step_pending:
  assumes "unixMount w (h @ [EvMount source target ''ext4'' flags data]) = Some (Errno ENOENT)"
    and "ctx (h @ [EvMount source target ''ext4'' flags data, EvCtxDone]) = None"
  shows "Mount_loop w ctx source target flags data h =
         Mount_loop w ctx source target flags data
           (h @ retry_round (EvMount source target ''ext4'' flags data))"
  using assms
  by (subst Mount_loop.simps)
     (simp add: Mount_syscall_def ctxDone_def Sleep_def retry_round_def Millisecond_def)

lemma mount_step_done:
  assumes "unixMount w (h @ [EvMount source target ''ext4'' flags data]) = Some (Errno ENOENT)"
    and "ctx (h @ [EvMount source target ''ext4'' flags data, EvCtxDone]) = Some e"
  shows "Mount_loop w ctx source target flags data h =
         Some (Some e, h @ [EvMount source target ''ext4'' flags data, EvCtxDone])"
  using assms
  by (subst Mount_loop.simps) (simp add: Mount_syscall_def ctxDone_def ctxErr_def)

lemma mount_step_fatal:
  assumes "unixMount w (h @ [EvMount source target ''ext4'' flags data]) = Some e"
    and "e \<noteq> Errno ENOENT"
  shows "Mount_loop w ctx source target flags data h =
         Some (Some e, h @ [EvMount source target ''ext4'' flags data])"
  using assms
  by (subst Mount_loop.simps) (simp add: Mount_syscall_def)

lemma mount_step_ok:
  assumes "unixMount w (h @ [EvMount source target ''ext4'' flags data]) = None"
  shows "Mount_loop w ctx source target flags data h =
         Some (None, h @ [EvMount source target ''ext4'' flags data])"
  using assms
  by (subst Mount_loop.simps) (simp add: Mount_syscall_def)

lemma mount_pending_Suc:
  "mount_pending w ctx call h (Suc n) \<longleftrightarrow>
     mount_pending w ctx call h n \<and>
     unixMount w (h @ retries call n @ [call]) = Some (Errno ENOENT) \<and>
     ctx (h @ retries call n @ [call, EvCtxDone]) = None"
  by (simp add: mount_pending_def)

lemma mount_retries:
  "mount_pending w ctx (EvMount source target ''ext4'' flags data) h n \<Longrightarrow>
   Mount_loop w ctx source target flags data h =
   Mount_loop w ctx source target flags data
     (h @ retries (EvMount source target ''ext4'' flags data) n)"
proof (induction n)
  case 0
  show ?case by simp
next
  case (Suc n)
  let ?call = "EvMount source target ''ext4'' flags data"
  from Suc.prems have pend: "mount_pending w ctx ?call h n"
    and enoent: "unixMount w ((h @ retries ?call n) @ [?call]) = Some (Errno ENOENT)"
    and ctx: "ctx ((h @ retries ?call n) @ [?call, EvCtxDone]) = None"
    by (simp_all add: mount_pending_Suc)
  show ?case
    using Suc.IH [OF pend]
      mount_step_pending [of w "h @ retries ?call n" source target flags data ctx, OF enoent ctx]
    by simp
qed

lemma mount_never_returns_aux:
  assumes pend: "\<And>n. mount_pending w ctx (EvMount source target ''ext4'' flags data) h n"
    and ret: "Mount_loop w0 ctx0 source0 target0 flags0 data0 h0 = Some y0"
  shows "w0 = w \<longrightarrow> ctx0 = ctx \<longrightarrow> source0 = source \<longrightarrow> target0 = target \<longrightarrow>
         flags0 = flags \<longrightarrow> data0 = data \<longrightarrow>
         (\<forall>m. h0 \<noteq> h @ retries (EvMount source target ''ext4'' flags data) m)"
proof (rule Mount_loop.raw_induct
    [where P = "\<lambda>w' ctx' source' target' flags' data' h' y.
       w' = w \<longrightarrow> ctx' = ctx \<longrightarrow> source' = source \<longrightarrow> target' = target \<longrightarrow>
       flags' = flags \<longrightarrow> data' = data \<longrightarrow>
       (\<forall>m. h' \<noteq> h @ retries (EvMount source target ''ext4'' flags data) m)",
     OF _ ret], goal_cases)
  case (1 loop w' ctx' source' target' flags' data' h' y)
  let ?call = "EvMount source target ''ext4'' flags data"
  show ?case
  proof (intro impI allI notI)
    fix m
    assume eqs: "w' = w" "ctx' = ctx" "source' = source" "target' = target"
        "flags' = flags" "data' = data"
      and h': "h' = h @ retries ?call m"
    from pend [of "Suc m"]
    have enoent: "unixMount w (h @ retries ?call m @ [?call]) = Some (Errno ENOENT)"
      and ctx: "ctx (h @ retries ?call m @ [?call, EvCtxDone]) = None"
      by (simp_all add: mount_pending_Suc)
    from 1(2) enoent ctx
    have "loop w ctx source target flags data (h @ retries ?call (Suc m)) = Some y"
      unfolding h' eqs
      by (simp add: Mount_syscall_def ctxDone_def Sleep_def retry_round_def Millisecond_def)
    from 1(1) [OF this]
    have "h @ retries ?call (Suc m) \<noteq> h @ retries ?call (Suc m)"
      by blast
    then show False by simp
  qed
qed

lemma mount_never_returns:
  assumes "\<And>n. mount_pending w ctx (EvMount source target ''ext4'' flags data) h n"
  shows "Mount_loop w ctx source target flags data h = None"
proof (cases "Mount_loop w ctx source target flags data h")
  case (Some y)
  from mount_never_returns_aux [OF assms Some] show ?thesis by (auto dest: spec [of _ 0])
qed simp

lemma mount_trace_aux:
  assumes "Mount_loop w ctx source target flags data h = Some y"
  shows "\<exists>t. snd y = h @ t \<and>
             list_all (\<lambda>ev. \<not> is_RemoveAll ev \<and>
                            (is_Mount ev \<longrightarrow> mount_flags_data ev = Some (flags, data))) t \<and>
             (fst y = None \<longrightarrow> t \<noteq> [] \<and> is_Mount (last t))"
proof (rule Mount_loop.raw_induct
    [where P = "\<lambda>w ctx source target flags data h y.
       \<exists>t. snd y = h @ t \<and>
           list_all (\<lambda>ev. \<not> is_RemoveAll ev \<and>
                          (is_Mount ev \<longrightarrow> mount_flags_data ev = Some (flags, data))) t \<and>
           (fst y = None \<longrightarrow> t \<noteq> [] \<and> is_Mount (last t))",
     OF _ assms], goal_cases)
  case (1 loop w ctx source target flags data h y)
  let ?call = "EvMount source target ''ext4'' flags data"
  define ok where
    "ok = (\<lambda>ev. \<not> is_RemoveAll ev \<and> (is_Mount ev \<longrightarrow> mount_flags_data ev = Some (flags, data)))"
  have ok: "ok ?call" "ok EvCtxDone" "ok (EvSleep d)" for d
    by (simp_all add: ok_def)
  obtain err h' where y: "y = (err, h')"
    by (cases y)
  note body = 1(2) [unfolded y]
  have "h' = h @ [?call] \<or>
        h' = h @ [?call, EvCtxDone] \<and> err \<noteq> None \<or>
        loop w ctx source target flags data
          (h @ [?call, EvCtxDone, EvSleep (10 * Millisecond)]) = Some y"
  proof (cases "unixMount w (h @ [?call])")
    case None
    with body show ?thesis by (simp add: Mount_syscall_def Let_def y)
  next
    case (Some e)
    show ?thesis
    proof (cases "e = Errno ENOENT")
      case False
      with Some body show ?thesis by (simp add: Mount_syscall_def Let_def y)
    next
      case True
      show ?thesis
      proof (cases "ctx (h @ [?call, EvCtxDone])")
        case None
        with Some True body show ?thesis
          by (simp add: Mount_syscall_def ctxDone_def Sleep_def Let_def y)
      next
        case (Some ce)
        with \<open>unixMount w (h @ [?call]) = Some e\<close> True body
        have "Some ce = err \<and> h @ [?call, EvCtxDone] = h'"
          by (simp add: Mount_syscall_def ctxDone_def ctxErr_def Let_def)
        then have "h' = h @ [?call, EvCtxDone]" "err = Some ce"
          by simp_all
        then show ?thesis by simp
      qed
    qed
  qed
  then consider
    (ret) "h' = h @ [?call]"
  | (expired) "h' = h @ [?call, EvCtxDone]" "err \<noteq> None"
  | (again) "loop w ctx source target flags data
               (h @ [?call, EvCtxDone, EvSleep (10 * Millisecond)]) = Some y"
    by blast
  then have "\<exists>t. h' = h @ t \<and> list_all ok t \<and> (err = None \<longrightarrow> t \<noteq> [] \<and> is_Mount (last t))"
  proof cases
    case ret
    have "h' = h @ [?call] \<and> list_all ok [?call] \<and>
          (err = None \<longrightarrow> [?call] \<noteq> [] \<and> is_Mount (last [?call]))"
      using ret ok by simp
    then show ?thesis by (rule exI)
  next
    case expired
    have "h' = h @ [?call, EvCtxDone] \<and> list_all ok [?call, EvCtxDone] \<and>
          (err = None \<longrightarrow> [?call, EvCtxDone] \<noteq> [] \<and> is_Mount (last [?call, EvCtxDone]))"
      using expired ok by simp
    then show ?thesis by (rule exI)
  next
    case again
    let ?round = "[?call, EvCtxDone, EvSleep (10 * Millisecond)]"
    from 1(1) [OF again, unfolded y, folded ok_def] obtain t
      where t: "h' = (h @ ?round) @ t" "list_all ok t"
        "err = None \<longrightarrow> t \<noteq> [] \<and> is_Mount (last t)"
      by auto
    have "h' = h @ (?round @ t) \<and> list_all ok (?round @ t) \<and>
          (err = None \<longrightarrow> ?round @ t \<noteq> [] \<and> is_Mount (last (?round @ t)))"
      using t ok by simp
    then show ?thesis by (rule exI)
  qed
  then show ?case
    by (simp add: y ok_def)
qed

lemma snd_RemoveAll: "snd (RemoveAll w path h) = h @ [EvRemoveAll path]"
  by (simp add: RemoveAll_def Let_def)

lemma Mount_after_resolution:
  assumes "osMkdirAll w (h @ [EvMkdirAll target perm_0700]) = None"
    and "ControllerLunToName w ctx controller lun (h @ [EvMkdirAll target perm_0700]) =
           Some ((source, None), h1)"
  shows "Mount w ctx controller lun target readonly h =
         (case Mount_loop w ctx source target (if readonly then MS_RDONLY else 0)
                 (if readonly then ''noload'' else '''') h1 of
            None \<Rightarrow> None
          | Some (err, h2) \<Rightarrow>
              if err \<noteq> None then Some (err, h2 @ [EvRemoveAll target]) else Some (err, h2))"
  using assms
  by (simp add: Mount_def MkdirAll_def Mount_body_def snd_RemoveAll Let_def
      split: option.splits)

lemma Mount_body_trace:
  assumes "Mount_body w ctx controller lun target readonly h = Some (err, h')"
  shows "\<exists>t. h' = h @ t \<and>
             list_all (\<lambda>ev. \<not> is_RemoveAll ev \<and>
                 (is_Mount ev \<longrightarrow>
                    mount_flags_data ev =
                      Some (if readonly then MS_RDONLY else 0,
                            if readonly then ''noload'' else ''''))) t \<and>
             (err = None \<longrightarrow> t \<noteq> [] \<and> is_Mount (last t))"
proof -
  let ?flags = "if readonly then MS_RDONLY else 0"
  let ?data = "if readonly then ''noload'' else ''''"
  define ok where
    "ok = (\<lambda>ev. \<not> is_RemoveAll ev \<and> (is_Mount ev \<longrightarrow> mount_flags_data ev = Some (?flags, ?data)))"
  from assms obtain source rerr h1
    where res: "ControllerLunToName w ctx controller lun h = Some ((source, rerr), h1)"
    by (auto simp: Mount_body_def split: option.splits)
  from resolve_trace_aux [OF res [unfolded ControllerLunToName_eq]] obtain t1
    where t1: "h1 = h @ t1" "list_all (\<lambda>ev. \<not> is_RemoveAll ev \<and> \<not> is_Mount ev) t1"
    by auto
  from t1(2) have ok1: "list_all ok t1"
    by (simp add: list_all_iff ok_def)
  have "\<exists>t. h' = h @ t \<and> list_all ok t \<and> (err = None \<longrightarrow> t \<noteq> [] \<and> is_Mount (last t))"
  proof (cases rerr)
    case (Some e)
    with assms res have "Some e = err \<and> h1 = h'"
      by (simp add: Mount_body_def)
    then have "h' = h1" "err \<noteq> None"
      by auto
    with t1(1) ok1 have "h' = h @ t1 \<and> list_all ok t1 \<and>
        (err = None \<longrightarrow> t1 \<noteq> [] \<and> is_Mount (last t1))"
      by blast
    then show ?thesis by (rule exI)
  next
    case None
    from None assms res
    have loop: "Mount_loop w ctx source target ?flags ?data h1 = Some (err, h')"
      by (simp add: Mount_body_def Let_def MS_RDONLY_def split: if_splits)
    from mount_trace_aux [OF loop, folded ok_def] obtain t2
      where t2: "h' = h1 @ t2" "list_all ok t2"
        "err = None \<longrightarrow> t2 \<noteq> [] \<and> is_Mount (last t2)"
      by auto
    have "h' = h @ (t1 @ t2) \<and> list_all ok (t1 @ t2) \<and>
        (err = None \<longrightarrow> t1 @ t2 \<noteq> [] \<and> is_Mount (last (t1 @ t2)))"
      using t1(1) ok1 t2 by simp
    then show ?thesis by (rule exI)
  qed
  then show ?thesis
    by (simp add: ok_def)
qed

lemma Mount_mkdir_fails:
  assumes "osMkdirAll w (h @ [EvMkdirAll target perm_0700]) = Some e"
  shows "Mount w ctx controller lun target readonly h =
         Some (Some e, h @ [EvMkdirAll target perm_0700])"
  using assms by (simp add: Mount_def MkdirAll_def Let_def)

lemma Mount_returns:
  assumes "Mount w ctx controller lun target readonly h = Some (r, h')"
    and "osMkdirAll w (h @ [EvMkdirAll target perm_0700]) = None"
  shows "\<exists>err h2. Mount_body w ctx controller lun target readonly
                    (h @ [EvMkdirAll target perm_0700]) = Some (err, h2) \<and> r = err \<and>
                  h' = (if err \<noteq> None then h2 @ [EvRemoveAll target] else h2)"
  using assms
  by (auto simp: Mount_def MkdirAll_def Let_def snd_RemoveAll split: option.splits if_splits)

section \<open>Device resolution\<close>

text \<open>
  Claim C2. For every controller and lun, when the first read of the listing
  \<open>/sys/bus/scsi/devices/0:0:<controller>:<lun>/block\<close> returns exactly one entry named
  \<open>E\<close>, \<open>ControllerLunToName\<close> returns \<open>/dev/E\<close> with no error, and its trace is that
  single read: no check of the context, no sleep and no second read.
\<close>

theorem resolve_single_entry:
  assumes "entry_name E"
    and "ioutilReadDir w (h @ [EvReadDir (topology_listing controller lun)]) = Inr [E]"
  shows "ControllerLunToName w ctx controller lun h =
         Some ((''/dev/'' @ E, None), h @ [EvReadDir (topology_listing controller lun)])"
  using assms
  by (simp add: ControllerLunToName_eq loop_found found_single)

theorem resolve_single_entry_witness:
  "entry_name ''sda'' \<and>
   ioutilReadDir kernel_ready ([] @ [EvReadDir (topology_listing 0 0)]) = Inr [''sda''] \<and>
   ControllerLunToName kernel_ready background 0 0 [] =
     Some ((''/dev/sda'', None), [EvReadDir ''/sys/bus/scsi/devices/0:0:0:0/block''])"
proof -
  have a: "entry_name ''sda''"
    by (simp add: entry_name_def)
  have b: "ioutilReadDir kernel_ready ([] @ [EvReadDir (topology_listing 0 0)]) = Inr [''sda'']"
    by (simp add: kernel_ready_def)
  show ?thesis
    using a b resolve_single_entry [OF a b, of background]
    by (simp add: topology_listing_0_0)
qed

text \<open>
  Claim C3. For every controller and lun, when a read of the topology listing (the first
  one, or the one after any number \<open>n\<close> of retries) returns two or more entries,
  \<open>ControllerLunToName\<close> returns the error "more than one block device could match SCSI
  ID" and its trace ends with that read: no check of the context, no sleep and no further
  read follow it.
\<close>

theorem resolve_ambiguous:
  assumes "listing_pending w ctx (topology_listing controller lun) h n"
    and "ioutilReadDir w (h @ retries (listing_read controller lun) n @ [listing_read controller lun])
           = Inr names"
    and "2 \<le> length names"
  shows "ControllerLunToName w ctx controller lun h =
         Some (('''', Some (Errorf (''more than one block device could match SCSI ID '' @
                  quote @ ''0:0:'' @ fmt_d (unat controller) @ '':'' @ fmt_d (unat lun) @ quote))),
               h @ retries (listing_read controller lun) n @ [listing_read controller lun])"
proof -
  from assms(3) have ne: "names \<noteq> []" by auto
  from assms(2)
  have rd: "ioutilReadDir w ((h @ retries (listing_read controller lun) n) @ [listing_read controller lun])
              = Inr names"
    by simp
  show ?thesis
    unfolding ControllerLunToName_retries [OF assms(1)]
    unfolding ControllerLunToName_eq loop_found [OF rd ne]
    using assms(3) ne by (simp add: ControllerLunToName_found_def scsiID_of_def)
qed

theorem resolve_ambiguous_witness:
  "listing_pending kernel_ambiguous background (topology_listing 0 1) [] 1 \<and>
   ioutilReadDir kernel_ambiguous ([] @ retries (listing_read 0 1) 1 @ [listing_read 0 1])
     = Inr [''sdb'', ''sdc''] \<and>
   2 \<le> length [''sdb'', ''sdc''] \<and>
   ControllerLunToName kernel_ambiguous background 0 1 [] =
     Some (('''', Some (Errorf (''more than one block device could match SCSI ID '' @ quote @ ''0:0:0:1'' @ quote))),
           [EvReadDir ''/sys/bus/scsi/devices/0:0:0:1/block'', EvCtxDone, EvSleep 10000000,
            EvReadDir ''/sys/bus/scsi/devices/0:0:0:1/block''])"
proof -
  have a: "listing_pending kernel_ambiguous background (topology_listing 0 1) [] 1"
    by (simp add: listing_pending_def absent_or_empty_def kernel_ambiguous_def kernel_ready_def
        calls_def background_def)
  have b: "ioutilReadDir kernel_ambiguous ([] @ retries (listing_read 0 1) 1 @ [listing_read 0 1])
     = Inr [''sdb'', ''sdc'']"
    by (simp add: kernel_ambiguous_def kernel_ready_def calls_def retry_round_def)
  have c: "2 \<le> length [''sdb'', ''sdc'']" by simp
  have d: "fmt_d 0 = ''0''" "fmt_d (Suc 0) = ''1''"
    by (simp_all add: fmt_d.simps digit_def)
  show ?thesis
    using a b c resolve_ambiguous [OF a b c]
    by (simp add: listing_0_1 retry_round_def d)
qed

text \<open>
  Claim C9. When a read of the topology listing (after any number \<open>n\<close> of retries) fails
  with an error for which \<open>os.IsNotExist\<close> does not hold, \<open>ControllerLunToName\<close> returns
  that very error, and its trace ends with the failed read: no sleep and no retry.
\<close>

theorem resolve_read_error:
  assumes "listing_pending w ctx (topology_listing controller lun) h n"
    and "ioutilReadDir w (h @ retries (listing_read controller lun) n @ [listing_read controller lun])
           = Inl e"
    and "\<not> os_IsNotExist e"
  shows "ControllerLunToName w ctx controller lun h =
         Some (('''', Some e),
               h @ retries (listing_read controller lun) n @ [listing_read controller lun])"
proof -
  from assms(2)
  have rd: "ioutilReadDir w ((h @ retries (listing_read controller lun) n) @ [listing_read controller lun])
              = Inl e"
    by simp
  show ?thesis
    unfolding ControllerLunToName_retries [OF assms(1)]
    unfolding ControllerLunToName_eq loop_error [OF rd assms(3)]
    by simp
qed

theorem resolve_read_error_witness:
  "listing_pending kernel_denied background (topology_listing 0 1) [] 1 \<and>
   ioutilReadDir kernel_denied ([] @ retries (listing_read 0 1) 1 @ [listing_read 0 1])
     = Inl (PathError ''open'' ''/sys/bus/scsi/devices/0:0:0:1/block'' (Errno EACCES)) \<and>
   \<not> os_IsNotExist (PathError ''open'' ''/sys/bus/scsi/devices/0:0:0:1/block'' (Errno EACCES)) \<and>
   ControllerLunToName kernel_denied background 0 1 [] =
     Some (('''', Some (PathError ''open'' ''/sys/bus/scsi/devices/0:0:0:1/block'' (Errno EACCES))),
           [EvReadDir ''/sys/bus/scsi/devices/0:0:0:1/block'', EvCtxDone, EvSleep 10000000,
            EvReadDir ''/sys/bus/scsi/devices/0:0:0:1/block''])"
proof -
  have a: "listing_pending kernel_denied background (topology_listing 0 1) [] 1"
    by (simp add: listing_pending_def absent_or_empty_def kernel_denied_def kernel_ready_def
        calls_def background_def os_IsNotExist_def)
  have b: "ioutilReadDir kernel_denied ([] @ retries (listing_read 0 1) 1 @ [listing_read 0 1])
     = Inl (PathError ''open'' ''/sys/bus/scsi/devices/0:0:0:1/block'' (Errno EACCES))"
    by (simp add: kernel_denied_def kernel_ready_def calls_def retry_round_def listing_0_1)
  have c: "\<not> os_IsNotExist (PathError ''open'' ''/sys/bus/scsi/devices/0:0:0:1/block'' (Errno EACCES))"
    by (simp add: os_IsNotExist_def ENOENT_def EACCES_def)
  show ?thesis
    using a b c resolve_read_error [OF a b c]
    by (simp add: listing_0_1 retry_round_def)
qed

text \<open>
  Claim C5. Whenever a read of the topology listing finds the path absent or the listing
  empty, the context is checked before any sleep. As long as it is not done, each such round
  is the read, the check and a sleep of exactly 10 milliseconds, after which
  \<open>ControllerLunToName\<close> goes on as a call started on the extended trace, that is, with
  another read. When the context is done at the check, its own error is returned at once,
  with no sleep after the check. Nothing but the context bounds the retries: when every
  read finds the listing absent or empty and the context is never done, the call never
  returns.
\<close>

theorem resolve_retry:
  assumes "listing_pending w ctx (topology_listing controller lun) h n"
  shows "ControllerLunToName w ctx controller lun h =
           ControllerLunToName w ctx controller lun (h @ retries (listing_read controller lun) n)
         \<and> retry_round (listing_read controller lun) =
             [listing_read controller lun, EvCtxDone, EvSleep (10 * Millisecond)]
         \<and> (absent_or_empty w (topology_listing controller lun)
               (h @ retries (listing_read controller lun) n) \<and>
             ctx (h @ retries (listing_read controller lun) n @
                    [listing_read controller lun, EvCtxDone]) = Some e \<longrightarrow>
             ControllerLunToName w ctx controller lun h =
               Some (('''', Some e),
                     h @ retries (listing_read controller lun) n @
                       [listing_read controller lun, EvCtxDone]))
         \<and> ((\<forall>m. listing_pending w ctx (topology_listing controller lun) h m) \<longrightarrow>
             ControllerLunToName w ctx controller lun h = None)"
proof (intro conjI impI)
  show "ControllerLunToName w ctx controller lun h =
        ControllerLunToName w ctx controller lun (h @ retries (listing_read controller lun) n)"
    by (rule ControllerLunToName_retries [OF assms])
  show "retry_round (listing_read controller lun) =
        [listing_read controller lun, EvCtxDone, EvSleep (10 * Millisecond)]"
    by (simp add: retry_round_def Millisecond_def)
next
  assume "absent_or_empty w (topology_listing controller lun)
            (h @ retries (listing_read controller lun) n) \<and>
          ctx (h @ retries (listing_read controller lun) n @
                 [listing_read controller lun, EvCtxDone]) = Some e"
  then have abs: "absent_or_empty w (topology_listing controller lun)
                    (h @ retries (listing_read controller lun) n)"
    and fin: "ctx ((h @ retries (listing_read controller lun) n) @
                 [listing_read controller lun, EvCtxDone]) = Some e"
    by simp_all
  show "ControllerLunToName w ctx controller lun h =
        Some (('''', Some e),
              h @ retries (listing_read controller lun) n @ [listing_read controller lun, EvCtxDone])"
    unfolding ControllerLunToName_retries [OF assms]
    unfolding ControllerLunToName_eq
    using loop_done [of w "topology_listing controller lun"
        "h @ retries (listing_read controller lun) n" ctx e, OF abs fin]
    by simp
next
  assume "\<forall>m. listing_pending w ctx (topology_listing controller lun) h m"
  then show "ControllerLunToName w ctx controller lun h = None"
    unfolding ControllerLunToName_eq by (intro loop_never_returns) simp
qed

theorem resolve_retry_witness:
  "listing_pending kernel_absent (deadline 25000000) (topology_listing 0 1) [] 3 \<and>
   absent_or_empty kernel_absent (topology_listing 0 1) ([] @ retries (listing_read 0 1) 3) \<and>
   deadline 25000000 ([] @ retries (listing_read 0 1) 3 @ [listing_read 0 1, EvCtxDone])
     = Some DeadlineExceeded \<and>
   ControllerLunToName kernel_absent (deadline 25000000) 0 1 [] =
     Some (('''', Some DeadlineExceeded),
       [EvReadDir ''/sys/bus/scsi/devices/0:0:0:1/block'', EvCtxDone, EvSleep 10000000,
        EvReadDir ''/sys/bus/scsi/devices/0:0:0:1/block'', EvCtxDone, EvSleep 10000000,
        EvReadDir ''/sys/bus/scsi/devices/0:0:0:1/block'', EvCtxDone, EvSleep 10000000,
        EvReadDir ''/sys/bus/scsi/devices/0:0:0:1/block'', EvCtxDone]) \<and>
   (\<forall>m. listing_pending kernel_absent background (topology_listing 0 1) [] m) \<and>
   ControllerLunToName kernel_absent background 0 1 [] = None"
proof -
  have abs: "absent_or_empty kernel_absent p h" for p h
    by (simp add: absent_or_empty_def kernel_absent_def kernel_ready_def os_IsNotExist_def)
  have a: "listing_pending kernel_absent (deadline 25000000) (topology_listing 0 1) [] 3"
    by (simp add: listing_pending_def abs deadline_def retry_round_def numeral_3_eq_3)
  have b: "deadline 25000000 ([] @ retries (listing_read 0 1) 3 @ [listing_read 0 1, EvCtxDone])
     = Some DeadlineExceeded"
    by (simp add: deadline_def retry_round_def numeral_3_eq_3)
  have c: "listing_pending kernel_absent background (topology_listing 0 1) [] m" for m
    by (simp add: listing_pending_def abs background_def list_all_iff)
  have d: "listing_pending kernel_absent background (topology_listing 0 1) [] 0"
    by (rule c)
  from resolve_retry [OF a, of DeadlineExceeded] abs b
  have "ControllerLunToName kernel_absent (deadline 25000000) 0 1 [] =
        Some (('''', Some DeadlineExceeded),
          [] @ retries (listing_read 0 1) 3 @ [listing_read 0 1, EvCtxDone])"
    by blast
  moreover from resolve_retry [OF d] c
  have "ControllerLunToName kernel_absent background 0 1 [] = None"
    by blast
  ultimately show ?thesis
    using a b c abs by (simp add: listing_0_1 retry_round_def numeral_3_eq_3)
qed

section \<open>Mounting\<close>

text \<open>
  Claim C1. For every controller, lun, target and readonly: when the creation of the target
  directory fails, \<open>Mount\<close> returns that error and its trace is the creation alone, with no
  removal. When the creation has succeeded, the trace of every error return of \<open>Mount\<close>
  ends with the removal of \<open>target\<close>, and this is its only removal; nothing in the kernel's
  answers or in the earlier trace \<open>h\<close> is consulted for that, so the removal also happens
  when the directory existed before the call. On success the trace holds no removal.
\<close>

theorem mount_rollback:
  "(osMkdirAll w (h @ [EvMkdirAll target perm_0700]) = Some e \<longrightarrow>
      Mount w ctx controller lun target readonly h =
        Some (Some e, h @ [EvMkdirAll target perm_0700]))
   \<and> (osMkdirAll w (h @ [EvMkdirAll target perm_0700]) = None \<and>
      Mount w ctx controller lun target readonly h = Some (Some e, h') \<longrightarrow>
      (\<exists>t. h' = h @ EvMkdirAll target perm_0700 # t @ [EvRemoveAll target] \<and>
           list_all (\<lambda>ev. \<not> is_RemoveAll ev) t))
   \<and> (Mount w ctx controller lun target readonly h = Some (None, h') \<longrightarrow>
      (\<exists>t. h' = h @ EvMkdirAll target perm_0700 # t \<and>
           list_all (\<lambda>ev. \<not> is_RemoveAll ev) t))"
proof (intro conjI impI)
  assume "osMkdirAll w (h @ [EvMkdirAll target perm_0700]) = Some e"
  then show "Mount w ctx controller lun target readonly h =
             Some (Some e, h @ [EvMkdirAll target perm_0700])"
    by (rule Mount_mkdir_fails)
next
  assume "osMkdirAll w (h @ [EvMkdirAll target perm_0700]) = None \<and>
          Mount w ctx controller lun target readonly h = Some (Some e, h')"
  then have mk: "osMkdirAll w (h @ [EvMkdirAll target perm_0700]) = None"
    and ret: "Mount w ctx controller lun target readonly h = Some (Some e, h')"
    by simp_all
  from Mount_returns [OF ret mk] obtain h2
    where body: "Mount_body w ctx controller lun target readonly
                   (h @ [EvMkdirAll target perm_0700]) = Some (Some e, h2)"
      and h': "h' = h2 @ [EvRemoveAll target]"
    by auto
  from Mount_body_trace [OF body] obtain t
    where "h2 = (h @ [EvMkdirAll target perm_0700]) @ t" "list_all (\<lambda>ev. \<not> is_RemoveAll ev) t"
    by (auto simp: list_all_iff)
  with h' have "h' = h @ EvMkdirAll target perm_0700 # t @ [EvRemoveAll target] \<and>
                list_all (\<lambda>ev. \<not> is_RemoveAll ev) t"
    by simp
  then show "\<exists>t. h' = h @ EvMkdirAll target perm_0700 # t @ [EvRemoveAll target] \<and>
                 list_all (\<lambda>ev. \<not> is_RemoveAll ev) t"
    by (rule exI)
next
  assume ret: "Mount w ctx controller lun target readonly h = Some (None, h')"
  have mk: "osMkdirAll w (h @ [EvMkdirAll target perm_0700]) = None"
  proof (cases "osMkdirAll w (h @ [EvMkdirAll target perm_0700])")
    case (Some e')
    from Mount_mkdir_fails [OF Some, of ctx controller lun readonly] ret show ?thesis
      by simp
  qed simp
  from Mount_returns [OF ret mk] obtain h2
    where body: "Mount_body w ctx controller lun target readonly
                   (h @ [EvMkdirAll target perm_0700]) = Some (None, h2)"
      and h': "h' = h2"
    by auto
  from Mount_body_trace [OF body] obtain t
    where "h2 = (h @ [EvMkdirAll target perm_0700]) @ t" "list_all (\<lambda>ev. \<not> is_RemoveAll ev) t"
    by (auto simp: list_all_iff)
  with h' have "h' = h @ EvMkdirAll target perm_0700 # t \<and>
                list_all (\<lambda>ev. \<not> is_RemoveAll ev) t"
    by simp
  then show "\<exists>t. h' = h @ EvMkdirAll target perm_0700 # t \<and>
                 list_all (\<lambda>ev. \<not> is_RemoveAll ev) t"
    by (rule exI)
qed

theorem mount_rollback_witness:
  "osMkdirAll kernel_readonly_root ([] @ [EvMkdirAll ''/run/m'' perm_0700]) =
     Some (PathError ''mkdir'' ''/run/m'' (Errno 30)) \<and>
   Mount kernel_readonly_root background 0 1 ''/run/m'' False [] =
     Some (Some (PathError ''mkdir'' ''/run/m'' (Errno 30)),
           [] @ [EvMkdirAll ''/run/m'' perm_0700]) \<and>
   osMkdirAll kernel_mount_fatal
     ([EvMkdirAll ''/run/m'' perm_0700] @ [EvMkdirAll ''/run/m'' perm_0700]) = None \<and>
   Mount kernel_mount_fatal background 0 1 ''/run/m'' False [EvMkdirAll ''/run/m'' perm_0700] =
     Some (Some (Errno EIO),
       [EvMkdirAll ''/run/m'' perm_0700,
        EvMkdirAll ''/run/m'' perm_0700, listing_read 0 1,
        EvMount ''/dev/sda'' ''/run/m'' ''ext4'' 0 '''', EvCtxDone, EvSleep 10000000,
        EvMount ''/dev/sda'' ''/run/m'' ''ext4'' 0 '''',
        EvRemoveAll ''/run/m'']) \<and>
   (\<exists>t. [EvMkdirAll ''/run/m'' perm_0700,
         EvMkdirAll ''/run/m'' perm_0700, listing_read 0 1,
         EvMount ''/dev/sda'' ''/run/m'' ''ext4'' 0 '''', EvCtxDone, EvSleep 10000000,
         EvMount ''/dev/sda'' ''/run/m'' ''ext4'' 0 '''',
         EvRemoveAll ''/run/m''] =
        [EvMkdirAll ''/run/m'' perm_0700] @ EvMkdirAll ''/run/m'' perm_0700 # t @
          [EvRemoveAll ''/run/m''] \<and>
        list_all (\<lambda>ev. \<not> is_RemoveAll ev) t) \<and>
   Mount kernel_ready background 0 1 ''/run/m'' True [] =
     Some (None,
       [EvMkdirAll ''/run/m'' perm_0700, listing_read 0 1,
        EvMount ''/dev/sda'' ''/run/m'' ''ext4'' MS_RDONLY ''noload'']) \<and>
   (\<exists>t. [EvMkdirAll ''/run/m'' perm_0700, listing_read 0 1,
         EvMount ''/dev/sda'' ''/run/m'' ''ext4'' MS_RDONLY ''noload''] =
        [] @ EvMkdirAll ''/run/m'' perm_0700 # t \<and>
        list_all (\<lambda>ev. \<not> is_RemoveAll ev) t)"
proof -
  let ?mk = "EvMkdirAll ''/run/m'' perm_0700"
  let ?failed = "[?mk, ?mk, listing_read 0 1,
        EvMount ''/dev/sda'' ''/run/m'' ''ext4'' 0 '''', EvCtxDone, EvSleep 10000000,
        EvMount ''/dev/sda'' ''/run/m'' ''ext4'' 0 '''',
        EvRemoveAll ''/run/m'']"
  let ?mounted = "[?mk, listing_read 0 1,
        EvMount ''/dev/sda'' ''/run/m'' ''ext4'' MS_RDONLY ''noload'']"
  have a: "osMkdirAll kernel_readonly_root ([] @ [?mk]) =
             Some (PathError ''mkdir'' ''/run/m'' (Errno 30))"
    by (simp add: kernel_readonly_root_def kernel_ready_def)
  have b: "osMkdirAll kernel_mount_fatal ([?mk] @ [?mk]) = None"
    by (simp add: kernel_mount_fatal_def kernel_ready_def)
  have c: "Mount kernel_mount_fatal background 0 1 ''/run/m'' False [?mk] =
             Some (Some (Errno EIO), ?failed)"
    by code_simp
  have d: "Mount kernel_ready background 0 1 ''/run/m'' True [] = Some (None, ?mounted)"
    by code_simp
  from mount_rollback [of kernel_readonly_root "[]" "''/run/m''" _ background 0 1 False] a
  have A: "Mount kernel_readonly_root background 0 1 ''/run/m'' False [] =
             Some (Some (PathError ''mkdir'' ''/run/m'' (Errno 30)), [] @ [?mk])"
    by blast
  from mount_rollback [of kernel_mount_fatal "[?mk]" "''/run/m''" "Errno EIO" background 0 1
      False ?failed] b c
  have B: "\<exists>t. ?failed = [?mk] @ ?mk # t @ [EvRemoveAll ''/run/m''] \<and>
               list_all (\<lambda>ev. \<not> is_RemoveAll ev) t"
    by blast
  from mount_rollback [of kernel_ready "[]" "''/run/m''" _ background 0 1 True ?mounted] d
  have C: "\<exists>t. ?mounted = [] @ ?mk # t \<and> list_all (\<lambda>ev. \<not> is_RemoveAll ev) t"
    by blast
  from a A b c B d C show ?thesis
    by (intro conjI)
qed

text \<open>
  Claim C6. In \<open>Mount\<close>, once the directory is created and the resolution has returned
  \<open>source\<close>, every mount call has the filesystem type \<open>ext4\<close>. As long as the call
  fails with \<open>ENOENT\<close> and the context is not done, each round is the mount call, the check
  of the context and a sleep of exactly 10 milliseconds. After any number \<open>n\<close> of such
  rounds: a mount call that succeeds ends \<open>Mount\<close> with no error; one that fails with
  another error ends it with that error, with no retry, after the removal of \<open>target\<close>;
  one that fails with \<open>ENOENT\<close> while the context is done ends it with the context's own
  error, after the removal of \<open>target\<close>. Nothing but the context bounds the retries: when
  every mount call fails with \<open>ENOENT\<close> and the context is never done, \<open>Mount\<close> never
  returns.
\<close>

theorem mount_retry:
  assumes "osMkdirAll w (h @ [EvMkdirAll target perm_0700]) = None"
    and "ControllerLunToName w ctx controller lun (h @ [EvMkdirAll target perm_0700]) =
           Some ((source, None), h1)"
    and "mount_pending w ctx (mount_call source target readonly) h1 n"
  shows "retry_round (mount_call source target readonly) =
           [mount_call source target readonly, EvCtxDone, EvSleep (10 * Millisecond)]
         \<and> (unixMount w (h1 @ retries (mount_call source target readonly) n @
                           [mount_call source target readonly]) = None \<longrightarrow>
            Mount w ctx controller lun target readonly h =
              Some (None, h1 @ retries (mount_call source target readonly) n @
                            [mount_call source target readonly]))
         \<and> (unixMount w (h1 @ retries (mount_call source target readonly) n @
                           [mount_call source target readonly]) = Some e \<and>
            e \<noteq> Errno ENOENT \<longrightarrow>
            Mount w ctx controller lun target readonly h =
              Some (Some e, h1 @ retries (mount_call source target readonly) n @
                              [mount_call source target readonly, EvRemoveAll target]))
         \<and> (unixMount w (h1 @ retries (mount_call source target readonly) n @
                           [mount_call source target readonly]) = Some (Errno ENOENT) \<and>
            ctx (h1 @ retries (mount_call source target readonly) n @
                   [mount_call source target readonly, EvCtxDone]) = Some ce \<longrightarrow>
            Mount w ctx controller lun target readonly h =
              Some (Some ce, h1 @ retries (mount_call source target readonly) n @
                               [mount_call source target readonly, EvCtxDone,
                                EvRemoveAll target]))
         \<and> ((\<forall>m. mount_pending w ctx (mount_call source target readonly) h1 m) \<longrightarrow>
            Mount w ctx controller lun target readonly h = None)"
proof -
  let ?flags = "if readonly then MS_RDONLY else 0"
  let ?data = "if readonly then ''noload'' else ''''"
  let ?call = "EvMount source target ''ext4'' ?flags ?data"
  let ?hn = "h1 @ retries ?call n"
  note M = Mount_after_resolution [OF assms(1,2), of readonly]
  have loop: "Mount_loop w ctx source target ?flags ?data h1 =
              Mount_loop w ctx source target ?flags ?data ?hn"
    by (rule mount_retries [OF assms(3)])
  have ok: "Mount w ctx controller lun target readonly h = Some (None, ?hn @ [?call])"
    if "unixMount w (?hn @ [?call]) = None"
    unfolding M loop
    using mount_step_ok [of w ?hn source target ?flags ?data ctx] that by simp
  have fatal: "Mount w ctx controller lun target readonly h =
                 Some (Some e, ?hn @ [?call, EvRemoveAll target])"
    if "unixMount w (?hn @ [?call]) = Some e" "e \<noteq> Errno ENOENT"
    unfolding M loop
    using mount_step_fatal [of w ?hn source target ?flags ?data e ctx] that by simp
  have expired: "Mount w ctx controller lun target readonly h =
                 Some (Some ce, ?hn @ [?call, EvCtxDone, EvRemoveAll target])"
    if "unixMount w (?hn @ [?call]) = Some (Errno ENOENT)"
      "ctx (?hn @ [?call, EvCtxDone]) = Some ce"
    unfolding M loop
    using mount_step_done [of w ?hn source target ?flags ?data ctx ce] that by simp
  have never: "Mount w ctx controller lun target readonly h = None"
    if "\<forall>m. mount_pending w ctx ?call h1 m"
    unfolding M using mount_never_returns [of w ctx source target ?flags ?data h1] that by simp
  show ?thesis
    using ok fatal expired never by (simp add: retry_round_def Millisecond_def)
qed

theorem mount_retry_witness:
  "osMkdirAll kernel_slow ([] @ [EvMkdirAll ''/run/m'' perm_0700]) = None \<and>
   ControllerLunToName kernel_slow background 0 1 ([] @ [EvMkdirAll ''/run/m'' perm_0700]) =
     Some ((''/dev/sdb'', None),
       [EvMkdirAll ''/run/m'' perm_0700,
        listing_read 0 1, EvCtxDone, EvSleep 10000000,
        listing_read 0 1, EvCtxDone, EvSleep 10000000,
        listing_read 0 1]) \<and>
   mount_pending kernel_slow background (mount_call ''/dev/sdb'' ''/run/m'' True)
     [EvMkdirAll ''/run/m'' perm_0700,
      listing_read 0 1, EvCtxDone, EvSleep 10000000,
      listing_read 0 1, EvCtxDone, EvSleep 10000000,
      listing_read 0 1] 2 \<and>
   Mount kernel_slow background 0 1 ''/run/m'' True [] =
     Some (None,
       [EvMkdirAll ''/run/m'' perm_0700,
        listing_read 0 1, EvCtxDone, EvSleep 10000000,
        listing_read 0 1, EvCtxDone, EvSleep 10000000,
        listing_read 0 1,
        EvMount ''/dev/sdb'' ''/run/m'' ''ext4'' MS_RDONLY ''noload'', EvCtxDone, EvSleep 10000000,
        EvMount ''/dev/sdb'' ''/run/m'' ''ext4'' MS_RDONLY ''noload'', EvCtxDone, EvSleep 10000000,
        EvMount ''/dev/sdb'' ''/run/m'' ''ext4'' MS_RDONLY ''noload'']) \<and>
   mount_pending kernel_mount_fatal background (mount_call ''/dev/sda'' ''/run/m'' False)
     [EvMkdirAll ''/run/m'' perm_0700, listing_read 0 1] 1 \<and>
   Mount kernel_mount_fatal background 0 1 ''/run/m'' False [] =
     Some (Some (Errno EIO),
       [EvMkdirAll ''/run/m'' perm_0700, listing_read 0 1,
        EvMount ''/dev/sda'' ''/run/m'' ''ext4'' 0 '''', EvCtxDone, EvSleep 10000000,
        EvMount ''/dev/sda'' ''/run/m'' ''ext4'' 0 '''',
        EvRemoveAll ''/run/m'']) \<and>
   mount_pending kernel_no_node (deadline 15000000) (mount_call ''/dev/sda'' ''/run/m'' False)
     [EvMkdirAll ''/run/m'' perm_0700, listing_read 0 1] 2 \<and>
   Mount kernel_no_node (deadline 15000000) 0 1 ''/run/m'' False [] =
     Some (Some DeadlineExceeded,
       [EvMkdirAll ''/run/m'' perm_0700, listing_read 0 1,
        EvMount ''/dev/sda'' ''/run/m'' ''ext4'' 0 '''', EvCtxDone, EvSleep 10000000,
        EvMount ''/dev/sda'' ''/run/m'' ''ext4'' 0 '''', EvCtxDone, EvSleep 10000000,
        EvMount ''/dev/sda'' ''/run/m'' ''ext4'' 0 '''', EvCtxDone,
        EvRemoveAll ''/run/m'']) \<and>
   (\<forall>m. mount_pending kernel_no_node background (mount_call ''/dev/sda'' ''/run/m'' False)
     [EvMkdirAll ''/run/m'' perm_0700, listing_read 0 1] m) \<and>
   Mount kernel_no_node background 0 1 ''/run/m'' False [] = None"
proof -
  let ?mk = "EvMkdirAll ''/run/m'' perm_0700"
  let ?h1 = "[?mk, listing_read 0 1, EvCtxDone, EvSleep 10000000,
              listing_read 0 1, EvCtxDone, EvSleep 10000000, listing_read 0 1]"
  let ?h2 = "[?mk, listing_read 0 1]"
  let ?ro = "mount_call ''/dev/sdb'' ''/run/m'' True"
  let ?rw = "mount_call ''/dev/sda'' ''/run/m'' False"
  have mk: "osMkdirAll kernel_slow ([] @ [?mk]) = None"
    "osMkdirAll kernel_mount_fatal ([] @ [?mk]) = None"
    "osMkdirAll kernel_no_node ([] @ [?mk]) = None"
    by (simp_all add: kernel_slow_def kernel_mount_fatal_def kernel_no_node_def kernel_ready_def)
  have res_slow: "ControllerLunToName kernel_slow background 0 1 ([] @ [?mk]) =
                    Some ((''/dev/sdb'', None), ?h1)"
    by code_simp
  have res_ready: "ControllerLunToName kernel_mount_fatal background 0 1 ([] @ [?mk]) =
                     Some ((''/dev/sda'', None), ?h2)"
    "ControllerLunToName kernel_no_node (deadline 15000000) 0 1 ([] @ [?mk]) =
                     Some ((''/dev/sda'', None), ?h2)"
    "ControllerLunToName kernel_no_node background 0 1 ([] @ [?mk]) =
                     Some ((''/dev/sda'', None), ?h2)"
    by code_simp+
  have pend_slow: "mount_pending kernel_slow background ?ro ?h1 2"
    by code_simp
  have pend_fatal: "mount_pending kernel_mount_fatal background ?rw ?h2 1"
    by code_simp
  have pend_deadline: "mount_pending kernel_no_node (deadline 15000000) ?rw ?h2 2"
    by code_simp
  have pend_never: "mount_pending kernel_no_node background ?rw ?h2 m" for m
    by (simp add: mount_pending_def kernel_no_node_def background_def list_all_iff)
  have last_slow: "unixMount kernel_slow (?h1 @ retries ?ro 2 @ [?ro]) = None"
    by code_simp
  have last_fatal: "unixMount kernel_mount_fatal (?h2 @ retries ?rw 1 @ [?rw]) = Some (Errno EIO)"
    "Errno EIO \<noteq> Errno ENOENT"
    by code_simp+
  have last_deadline: "unixMount kernel_no_node (?h2 @ retries ?rw 2 @ [?rw]) = Some (Errno ENOENT)"
    "deadline 15000000 (?h2 @ retries ?rw 2 @ [?rw, EvCtxDone]) = Some DeadlineExceeded"
    by code_simp+
  have r2: "retries call 2 = retry_round call @ retry_round call"
    and r1: "retries call 1 = retry_round call" for call
    by (simp_all add: numeral_2_eq_2)
  from mount_retry [OF mk(1) res_slow pend_slow] last_slow
  have A: "Mount kernel_slow background 0 1 ''/run/m'' True [] =
             Some (None, ?h1 @ retries ?ro 2 @ [?ro])"
    by blast
  from mount_retry [OF mk(2) res_ready(1) pend_fatal, of "Errno EIO"] last_fatal
  have B: "Mount kernel_mount_fatal background 0 1 ''/run/m'' False [] =
             Some (Some (Errno EIO), ?h2 @ retries ?rw 1 @ [?rw, EvRemoveAll ''/run/m''])"
    by blast
  from mount_retry [OF mk(3) res_ready(2) pend_deadline, of _ DeadlineExceeded] last_deadline
  have C: "Mount kernel_no_node (deadline 15000000) 0 1 ''/run/m'' False [] =
             Some (Some DeadlineExceeded,
                   ?h2 @ retries ?rw 2 @ [?rw, EvCtxDone, EvRemoveAll ''/run/m''])"
    by blast
  from mount_retry [OF mk(3) res_ready(3) pend_never [of 0]] pend_never
  have D: "Mount kernel_no_node background 0 1 ''/run/m'' False [] = None"
    by blast
  show ?thesis
    using mk res_slow pend_slow pend_fatal pend_deadline pend_never A B C D
    by (simp add: r1 r2 retry_round_def)
qed

text \<open>
  Claim C7. For every call of \<open>Mount\<close> that returns, every mount call it has issued carries
  the flags \<open>MS_RDONLY\<close> and the data \<open>noload\<close> when \<open>readonly\<close> is true, and zero flags
  and the empty data when it is false; a return with no error ends with such a mount call.
  The kernel is arbitrary, so this covers every mount call of every run: a prefix of a run
  that never returns is also the prefix of a run that does, under a kernel that answers
  the same up to there.
\<close>

theorem mount_parameters:
  assumes "Mount w ctx controller lun target readonly h = Some (r, h')"
  shows "(readonly \<longrightarrow>
           (\<forall>ev \<in> set (drop (length h) h').
              is_Mount ev \<longrightarrow> mount_flags_data ev = Some (MS_RDONLY, ''noload'')))
         \<and> (\<not> readonly \<longrightarrow>
           (\<forall>ev \<in> set (drop (length h) h').
              is_Mount ev \<longrightarrow> mount_flags_data ev = Some (0, '''')))
         \<and> (r = None \<longrightarrow> is_Mount (last h'))"
proof -
  let ?mk = "EvMkdirAll target perm_0700"
  let ?P = "\<lambda>ev. is_Mount ev \<longrightarrow>
              mount_flags_data ev =
                Some (if readonly then MS_RDONLY else 0, if readonly then ''noload'' else '''')"
  have "(\<forall>ev \<in> set (drop (length h) h'). ?P ev) \<and> (r = None \<longrightarrow> is_Mount (last h'))"
  proof (cases "osMkdirAll w (h @ [?mk])")
    case (Some e)
    from Mount_mkdir_fails [OF Some, of ctx controller lun readonly] assms
    have "r = Some e" "h' = h @ [?mk]"
      by simp_all
    then show ?thesis by simp
  next
    case None
    from Mount_returns [OF assms None] obtain h2
      where body: "Mount_body w ctx controller lun target readonly (h @ [?mk]) = Some (r, h2)"
        and h': "h' = (if r \<noteq> None then h2 @ [EvRemoveAll target] else h2)"
      by auto
    from Mount_body_trace [OF body] obtain t
      where t: "h2 = (h @ [?mk]) @ t" "list_all ?P t"
        "r = None \<longrightarrow> t \<noteq> [] \<and> is_Mount (last t)"
      by (auto simp: list_all_iff)
    show ?thesis
    proof (cases r)
      case None
      with h' t have "h' = h @ ?mk # t" "t \<noteq> []" "is_Mount (last t)"
        by simp_all
      with t(2) None show ?thesis
        by (simp add: list_all_iff)
    next
      case (Some e)
      with h' t have "h' = h @ ?mk # t @ [EvRemoveAll target]"
        by simp
      with t(2) Some show ?thesis
        by (simp add: list_all_iff)
    qed
  qed
  then show ?thesis
    by simp
qed

theorem mount_parameters_witness:
  "Mount kernel_slow background 0 1 ''/run/m'' True [] =
     Some (None,
       [EvMkdirAll ''/run/m'' perm_0700,
        listing_read 0 1, EvCtxDone, EvSleep 10000000,
        listing_read 0 1, EvCtxDone, EvSleep 10000000,
        listing_read 0 1,
        EvMount ''/dev/sdb'' ''/run/m'' ''ext4'' MS_RDONLY ''noload'', EvCtxDone, EvSleep 10000000,
        EvMount ''/dev/sdb'' ''/run/m'' ''ext4'' MS_RDONLY ''noload'', EvCtxDone, EvSleep 10000000,
        EvMount ''/dev/sdb'' ''/run/m'' ''ext4'' MS_RDONLY ''noload'']) \<and>
   mount_flags_data (EvMount ''/dev/sdb'' ''/run/m'' ''ext4'' MS_RDONLY ''noload'') =
     Some (MS_RDONLY, ''noload'') \<and>
   is_Mount (last
       [EvMkdirAll ''/run/m'' perm_0700,
        listing_read 0 1, EvCtxDone, EvSleep 10000000,
        listing_read 0 1, EvCtxDone, EvSleep 10000000,
        listing_read 0 1,
        EvMount ''/dev/sdb'' ''/run/m'' ''ext4'' MS_RDONLY ''noload'', EvCtxDone, EvSleep 10000000,
        EvMount ''/dev/sdb'' ''/run/m'' ''ext4'' MS_RDONLY ''noload'', EvCtxDone, EvSleep 10000000,
        EvMount ''/dev/sdb'' ''/run/m'' ''ext4'' MS_RDONLY ''noload'']) \<and>
   Mount kernel_mount_fatal background 0 1 ''/run/m'' False [] =
     Some (Some (Errno EIO),
       [EvMkdirAll ''/run/m'' perm_0700, listing_read 0 1,
        EvMount ''/dev/sda'' ''/run/m'' ''ext4'' 0 '''', EvCtxDone, EvSleep 10000000,
        EvMount ''/dev/sda'' ''/run/m'' ''ext4'' 0 '''',
        EvRemoveAll ''/run/m'']) \<and>
   mount_flags_data (EvMount ''/dev/sda'' ''/run/m'' ''ext4'' 0 '''') = Some (0, '''')"
proof -
  let ?mk = "EvMkdirAll ''/run/m'' perm_0700"
  let ?ro = "EvMount ''/dev/sdb'' ''/run/m'' ''ext4'' MS_RDONLY ''noload''"
  let ?rw = "EvMount ''/dev/sda'' ''/run/m'' ''ext4'' 0 ''''"
  let ?mounted = "[?mk, listing_read 0 1, EvCtxDone, EvSleep 10000000,
        listing_read 0 1, EvCtxDone, EvSleep 10000000, listing_read 0 1,
        ?ro, EvCtxDone, EvSleep 10000000, ?ro, EvCtxDone, EvSleep 10000000, ?ro]"
  let ?failed = "[?mk, listing_read 0 1, ?rw, EvCtxDone, EvSleep 10000000, ?rw,
        EvRemoveAll ''/run/m'']"
  have a: "Mount kernel_slow background 0 1 ''/run/m'' True [] = Some (None, ?mounted)"
    by code_simp
  have b: "Mount kernel_mount_fatal background 0 1 ''/run/m'' False [] =
             Some (Some (Errno EIO), ?failed)"
    by code_simp
  have in_ro: "?ro \<in> set (drop (length []) ?mounted)" "is_Mount ?ro"
    by simp_all
  have in_rw: "?rw \<in> set (drop (length []) ?failed)" "is_Mount ?rw"
    by simp_all
  from mount_parameters [OF a] in_ro
  have A: "mount_flags_data ?ro = Some (MS_RDONLY, ''noload'')" "is_Mount (last ?mounted)"
    by blast+
  from mount_parameters [OF b] in_rw
  have B: "mount_flags_data ?rw = Some (0, '''')"
    by blast
  from a A b B show ?thesis
    by (intro conjI)
qed

section \<open>Unplugging\<close>

lemma UnplugDevice_absent:
  assumes "control_absent w controller lun h"
  shows "UnplugDevice w ctx controller lun h = (None, h @ [open_delete controller lun])"
  using assms
  unfolding UnplugDevice_def Let_def deletePath_eq
  by (simp add: control_absent_def OpenFile_def split: sum.splits)

lemma UnplugDevice_times_absent:
  "(\<forall>k<n. control_absent w controller lun (h @ replicate k (open_delete controller lun))) \<Longrightarrow>
   UnplugDevice_times w ctx controller lun n h =
     (replicate n None, h @ replicate n (open_delete controller lun))"
proof (induction n arbitrary: h)
  case 0
  show ?case by simp
next
  case (Suc n)
  from Suc.prems have first: "control_absent w controller lun h"
    by (auto dest: spec [of _ 0])
  have rest: "\<forall>k<n. control_absent w controller lun
                 ((h @ [open_delete controller lun]) @ replicate k (open_delete controller lun))"
  proof (intro allI impI)
    fix k assume "k < n"
    with Suc.prems have "control_absent w controller lun
        (h @ replicate (Suc k) (open_delete controller lun))"
      by auto
    then show "control_absent w controller lun
        ((h @ [open_delete controller lun]) @ replicate k (open_delete controller lun))"
      by simp
  qed
  show ?case
    using Suc.IH [OF rest] UnplugDevice_absent [OF first, of ctx]
    by (simp add: replicate_append_same)
qed

text \<open>
  Claim C8. For every controller and lun, when the open of the removal-control file
  \<open>/sys/bus/scsi/devices/0:0:<controller>:<lun>/delete\<close> fails with an error for which
  \<open>os.IsNotExist\<close> holds, \<open>UnplugDevice\<close> returns no error and its trace is the open
  alone: no write is attempted. Hence any number \<open>n\<close> of calls in succession on a device
  that stays removed return no error each, and the trace holds \<open>n\<close> opens and no write.
\<close>

theorem unplug_absent:
  "(control_absent w controller lun h \<longrightarrow>
      UnplugDevice w ctx controller lun h = (None, h @ [open_delete controller lun]))
   \<and> ((\<forall>k<n. control_absent w controller lun (h @ replicate k (open_delete controller lun))) \<longrightarrow>
      UnplugDevice_times w ctx controller lun n h =
        (replicate n None, h @ replicate n (open_delete controller lun)))"
  using UnplugDevice_absent UnplugDevice_times_absent by blast

theorem unplug_absent_witness:
  "control_absent kernel_removed 0 1 [] \<and>
   UnplugDevice kernel_removed background 0 1 [] =
     (None, [EvOpenFile ''/sys/bus/scsi/devices/0:0:0:1/delete'' O_WRONLY perm_0644]) \<and>
   control_absent kernel_removed 0 1 ([] @ replicate 0 (open_delete 0 1)) \<and>
   control_absent kernel_removed 0 1 ([] @ replicate 1 (open_delete 0 1)) \<and>
   control_absent kernel_removed 0 1 ([] @ replicate 2 (open_delete 0 1)) \<and>
   UnplugDevice_times kernel_removed background 0 1 3 [] =
     ([None, None, None],
      [EvOpenFile ''/sys/bus/scsi/devices/0:0:0:1/delete'' O_WRONLY perm_0644,
       EvOpenFile ''/sys/bus/scsi/devices/0:0:0:1/delete'' O_WRONLY perm_0644,
       EvOpenFile ''/sys/bus/scsi/devices/0:0:0:1/delete'' O_WRONLY perm_0644])"
proof -
  have a: "control_absent kernel_removed 0 1 h" for h
    by (simp add: control_absent_def kernel_removed_def kernel_ready_def os_IsNotExist_def)
  then have b: "\<forall>k<3. control_absent kernel_removed 0 1 ([] @ replicate k (open_delete 0 1))"
    by simp
  from unplug_absent [of kernel_removed 0 1 "[]" background 3] a b
  have "UnplugDevice kernel_removed background 0 1 [] = (None, [] @ [open_delete 0 1])"
    and "UnplugDevice_times kernel_removed background 0 1 3 [] =
           (replicate 3 None, [] @ replicate 3 (open_delete 0 1))"
    by blast+
  then show ?thesis
    using a by (simp add: removal_0_1 numeral_3_eq_3)
qed

text \<open>
  Claim C4 as stated fails: the removal-control file opens, the write of the payload
  succeeds, and \<open>UnplugDevice\<close> still returns an error, that of the write to
  \<open>/dev/kmsg\<close>.
\<close>

theorem unplug_kmsg_counterexample:
  "osOpenFile kernel_kmsg_denied ([] @ [open_delete 0 1]) = Inr 3 \<and>
   fileWrite kernel_kmsg_denied ([] @ [open_delete 0 1, EvWrite 3 (''1'' @ [CHR 0x0A])]) = None \<and>
   UnplugDevice kernel_kmsg_denied background 0 1 [] =
     (Some (PathError ''open'' ''/dev/kmsg'' (Errno EACCES)),
      [EvOpenFile ''/sys/bus/scsi/devices/0:0:0:1/delete'' O_WRONLY perm_0644,
       EvWrite 3 (''1'' @ [CHR 0x0A]),
       EvWriteFile ''/dev/kmsg'' ''Time for scsi unplug: 1ns'' perm_0644,
       EvClose 3])"
  unfolding UnplugDevice_def Let_def deletePath_eq
  by (simp add: removal_0_1 OpenFile_def Write_def WriteFile_def Close_def kernel_ready_def
      kernel_kmsg_denied_def fmt_d_small)

text \<open>
  Claim C4, as amended. When the open of the removal-control file succeeds,
  \<open>UnplugDevice\<close> writes the payload \<open>1\n\<close> to it once. When that write fails, its error
  is returned unchanged and nothing but the close follows: no retry. When that write
  succeeds, the timing message is written to \<open>/dev/kmsg\<close> and \<open>UnplugDevice\<close> returns the
  result of this second write: no error when it succeeds, its error when it fails.
\<close>

theorem unplug_write:
  assumes "osOpenFile w (h @ [open_delete controller lun]) = Inr f"
  shows "(fileWrite w (h @ [open_delete controller lun, EvWrite f (''1'' @ [CHR 0x0A])]) = Some e \<longrightarrow>
            UnplugDevice w ctx controller lun h =
              (Some e, h @ [open_delete controller lun, EvWrite f (''1'' @ [CHR 0x0A]), EvClose f]))
         \<and> (fileWrite w (h @ [open_delete controller lun, EvWrite f (''1'' @ [CHR 0x0A])]) = None \<longrightarrow>
            UnplugDevice w ctx controller lun h =
              (ioutilWriteFile w
                 (h @ [open_delete controller lun, EvWrite f (''1'' @ [CHR 0x0A]),
                       EvWriteFile ''/dev/kmsg''
                         (''Time for scsi unplug: '' @
                            durationString w
                              (timeNow w (h @ [open_delete controller lun,
                                               EvWrite f (''1'' @ [CHR 0x0A])]) -
                               timeNow w (h @ [open_delete controller lun])))
                         perm_0644]),
               h @ [open_delete controller lun, EvWrite f (''1'' @ [CHR 0x0A]),
                    EvWriteFile ''/dev/kmsg''
                      (''Time for scsi unplug: '' @
                         durationString w
                           (timeNow w (h @ [open_delete controller lun,
                                            EvWrite f (''1'' @ [CHR 0x0A])]) -
                            timeNow w (h @ [open_delete controller lun])))
                      perm_0644,
                    EvClose f]))"
  using assms
  unfolding UnplugDevice_def Let_def deletePath_eq
  by (auto simp: OpenFile_def Write_def WriteFile_def Close_def Let_def split: option.splits)

theorem unplug_write_witness:
  "osOpenFile kernel_write_fails ([] @ [open_delete 0 1]) = Inr 3 \<and>
   fileWrite kernel_write_fails ([] @ [open_delete 0 1, EvWrite 3 (''1'' @ [CHR 0x0A])]) =
     Some (PathError ''write'' ''/sys/bus/scsi/devices/0:0:0:1/delete'' (Errno EIO)) \<and>
   UnplugDevice kernel_write_fails background 0 1 [] =
     (Some (PathError ''write'' ''/sys/bus/scsi/devices/0:0:0:1/delete'' (Errno EIO)),
      [EvOpenFile ''/sys/bus/scsi/devices/0:0:0:1/delete'' O_WRONLY perm_0644,
       EvWrite 3 (''1'' @ [CHR 0x0A]), EvClose 3]) \<and>
   osOpenFile kernel_ready ([] @ [open_delete 0 1]) = Inr 3 \<and>
   fileWrite kernel_ready ([] @ [open_delete 0 1, EvWrite 3 (''1'' @ [CHR 0x0A])]) = None \<and>
   UnplugDevice kernel_ready background 0 1 [] =
     (None,
      [EvOpenFile ''/sys/bus/scsi/devices/0:0:0:1/delete'' O_WRONLY perm_0644,
       EvWrite 3 (''1'' @ [CHR 0x0A]),
       EvWriteFile ''/dev/kmsg'' ''Time for scsi unplug: 1ns'' perm_0644,
       EvClose 3])"
proof -
  have a: "osOpenFile kernel_write_fails ([] @ [open_delete 0 1]) = Inr 3"
    by (simp add: kernel_write_fails_def kernel_ready_def)
  have b: "fileWrite kernel_write_fails ([] @ [open_delete 0 1, EvWrite 3 (''1'' @ [CHR 0x0A])]) =
             Some (PathError ''write'' ''/sys/bus/scsi/devices/0:0:0:1/delete'' (Errno EIO))"
    by (simp add: kernel_write_fails_def kernel_ready_def removal_0_1)
  have c: "osOpenFile kernel_ready ([] @ [open_delete 0 1]) = Inr 3"
    by (simp add: kernel_ready_def)
  have d: "fileWrite kernel_ready ([] @ [open_delete 0 1, EvWrite 3 (''1'' @ [CHR 0x0A])]) = None"
    by (simp add: kernel_ready_def)
  from unplug_write [OF a, of _ background] b
  have "UnplugDevice kernel_write_fails background 0 1 [] =
          (Some (PathError ''write'' ''/sys/bus/scsi/devices/0:0:0:1/delete'' (Errno EIO)),
           [] @ [open_delete 0 1, EvWrite 3 (''1'' @ [CHR 0x0A]), EvClose 3])"
    by blast
  moreover from unplug_write [OF c, of _ background] d
  have "UnplugDevice kernel_ready background 0 1 [] =
     (None,
      [EvOpenFile ''/sys/bus/scsi/devices/0:0:0:1/delete'' O_WRONLY perm_0644,
       EvWrite 3 (''1'' @ [CHR 0x0A]),
       EvWriteFile ''/dev/kmsg'' ''Time for scsi unplug: 1ns'' perm_0644,
       EvClose 3])"
    by (simp add: kernel_ready_def removal_0_1 fmt_d_small)
  ultimately show ?thesis
    using a b c d by (simp add: removal_0_1)
qed

text \<open>
  Claim C10. \<open>UnplugDevice\<close> never consults its context: for any two contexts, also one
  already canceled or expired, the result and the trace of opens and writes are the same.
\<close>

theorem unplug_ignores_context:
  "UnplugDevice w ctx controller lun h = UnplugDevice w ctx' controller lun h"
  by (simp add: UnplugDevice_def)

theorem unplug_ignores_context_witness:
  "UnplugDevice kernel_ready canceled 0 1 [] = UnplugDevice kernel_ready background 0 1 [] \<and>
   UnplugDevice kernel_ready canceled 0 1 [] =
     (None,
      [EvOpenFile ''/sys/bus/scsi/devices/0:0:0:1/delete'' O_WRONLY perm_0644,
       EvWrite 3 (''1'' @ [CHR 0x0A]),
       EvWriteFile ''/dev/kmsg'' ''Time for scsi unplug: 1ns'' perm_0644,
       EvClose 3])"
proof -
  have "UnplugDevice kernel_ready background 0 1 [] =
     (None,
      [EvOpenFile ''/sys/bus/scsi/devices/0:0:0:1/delete'' O_WRONLY perm_0644,
       EvWrite 3 (''1'' @ [CHR 0x0A]),
       EvWriteFile ''/dev/kmsg'' ''Time for scsi unplug: 1ns'' perm_0644,
       EvClose 3])"
    unfolding UnplugDevice_def Let_def deletePath_eq
    by (simp add: removal_0_1 OpenFile_def Write_def WriteFile_def Close_def kernel_ready_def
        fmt_d_small)
  then show ?thesis
    using unplug_ignores_context [of kernel_ready canceled 0 1 "[]" background] by simp
qed

end
